theory Spec2Isabelle
  imports Complex_Main
begin

section \<open>Data model of \<open>src/App.tsx\<close>\<close>

text \<open>
  The component \<open>App\<close> keeps its state in React state cells and talks to the browser
  through two media elements, \<open>localStorage\<close>, \<open>URL.revokeObjectURL\<close>, the console and
  DOM focus. The state cells become the fields of the record \<open>App\<close>; every call on an
  external collaborator is appended, in program order, to the field \<open>trace\<close>. Instants
  are integers: milliseconds since the epoch, as \<open>Date.getTime()\<close> returns them.
\<close>

datatype TimerType = time | duration

record BGMTrack =
  track_id :: string
  title :: string
  composer :: string
  filename :: string
  originalName :: string
  track_size :: nat
  track_type :: string
  uploadedAt :: string

record DurationInput =
  hours :: int
  minutes :: int
  seconds :: int

text \<open>A JavaScript \<open>Date\<close> is either a time value or the invalid date (time value NaN).\<close>

datatype date = Date int | InvalidDate

text \<open>
  The three messages that \<open>setUploadError\<close> receives are fixed Japanese sentences;
  they are named here by what they say: the file must be at most 10MB, the format is not
  supported, an error occurred while uploading.
\<close>

datatype UploadError = FileTooLarge | UnsupportedFormat | UploadFailed

datatype effect =
    BgmPause
  | BgmSetCurrentTime int
  | BgmPlay
  | BgmLoad
  | BgmSetVolume real
  | BgmSetHandlers
  | AlarmPlay
  | RevokeObjectURL string
  | ConsoleError string
  | ConsoleLog string
  | Focus nat
  | Blur

record App =
  currentTime :: int
  timerType :: TimerType
  targetTime :: string
  durationInput :: DurationInput
  endTime :: "date option"
  isBGMPlaying :: bool
  isBGMLoaded :: bool
  tracks :: "BGMTrack list"
  selectedTrack :: "BGMTrack option"
  showUploadForm :: bool
  uploadError :: "UploadError option"
  volume :: real
  audioRef :: bool
  bgmRef :: bool
  storage :: "string option"
  trace :: "effect list"

text \<open>
  \<open>audioRef\<close> and \<open>bgmRef\<close> say whether the ref of the alarm element and of the BGM
  element is set (the source tests \<open>audioRef.current\<close> and \<open>bgmRef.current\<close>);
  \<open>storage\<close> is the value of the \<open>localStorage\<close> key \<open>bgmTracks\<close>, \<open>None\<close> when
  the key is absent.
\<close>

definition MAX_FILE_SIZE :: nat where
  "MAX_FILE_SIZE = 10 * 1024 * 1024"

definition ACCEPTED_FORMATS :: "string list" where
  "ACCEPTED_FORMATS = [''audio/mpeg'', ''audio/wav'', ''audio/ogg'', ''audio/x-m4a'']"

section \<open>Strings and numbers of the host language\<close>

text \<open>\<open>String.prototype.split\<close> with a one-character separator: never the empty list.\<close>

fun split_on :: "char \<Rightarrow> string \<Rightarrow> string list" where
  "split_on c [] = [[]]"
| "split_on c (x # xs) =
     (if x = c then [] # split_on c xs
      else (case split_on c xs of
              [] \<Rightarrow> [[x]]
            | w # ws \<Rightarrow> (x # w) # ws))"

text \<open>\<open>String.prototype.startsWith\<close>.\<close>

definition startsWith :: "string \<Rightarrow> string \<Rightarrow> bool" where
  "startsWith s p = (take (length p) s = p)"

definition is_digit :: "char \<Rightarrow> bool" where
  "is_digit c = (48 \<le> (of_char c :: nat) \<and> (of_char c :: nat) \<le> 57)"

definition digit_val :: "char \<Rightarrow> int" where
  "digit_val c = int (of_char c) - 48"

definition digit_char :: "nat \<Rightarrow> char" where
  "digit_char d = char_of (48 + d)"

text \<open>
  \<open>Number(s)\<close> as \<open>setHours\<close> reads it: an integer, or \<open>None\<close> when the argument is
  NaN or infinite. A string of at most 15 decimal digits is its decimal value, which a
  double holds exactly, and the empty string is 0. What the host makes of any other
  string (white space, sign, fraction, exponent, radix prefix, longer digit strings) is
  the parameter \<open>other\<close>.
\<close>

definition js_Number :: "(string \<Rightarrow> int option) \<Rightarrow> string \<Rightarrow> int option" where
  "js_Number other s =
     (if list_all is_digit s \<and> length s \<le> 15
      then Some (foldl (\<lambda>acc c. acc * 10 + digit_val c) 0 s)
      else other s)"

text \<open>
  Array destructuring \<open>[hours, minutes] = parts\<close>: a missing element is \<open>undefined\<close>,
  which \<open>setHours\<close> converts to NaN.
\<close>

fun element :: "int option list \<Rightarrow> nat \<Rightarrow> int option" where
  "element [] i = None"
| "element (x # xs) 0 = x"
| "element (x # xs) (Suc i) = element xs i"

text \<open>\<open>Number.prototype.toString\<close> and \<open>String(n)\<close> on integers, in decimal.\<close>

fun string_of_nat :: "nat \<Rightarrow> string" where
  "string_of_nat n =
     (if n < 10 then [digit_char n] else string_of_nat (n div 10) @ [digit_char (n mod 10)])"

declare string_of_nat.simps [simp del]

definition toString :: "int \<Rightarrow> string" where
  "toString i = (if i < 0 then CHR ''-'' # string_of_nat (nat (- i)) else string_of_nat (nat i))"

text \<open>\<open>padStart(2, '0')\<close>.\<close>

definition padStart2 :: "string \<Rightarrow> string" where
  "padStart2 s = replicate (2 - length s) CHR ''0'' @ s"

text \<open>
  The remainder operator \<open>%\<close> of JavaScript truncates towards zero: the result has the
  sign of the dividend.
\<close>

definition js_rem :: "int \<Rightarrow> int \<Rightarrow> int" where
  "js_rem a b = (if 0 \<le> a then a mod \<bar>b\<bar> else - ((- a) mod \<bar>b\<bar>))"

section \<open>Dates in local time\<close>

text \<open>
  The source moves a date with two calendar methods of the host, which follow the rules
  of the local time zone, daylight-saving changes included. Both are parameters of the
  model: \<open>hoursAt z h m t\<close> is the time value of a date with the time value \<open>t\<close> after
  \<open>setHours(h, m, 0, 0)\<close>, and \<open>nextDate z t\<close> is its time value after
  \<open>setDate(getDate() + 1)\<close>.
\<close>

record LocalTime =
  hoursAt :: "int \<Rightarrow> int \<Rightarrow> int \<Rightarrow> int"
  nextDate :: "int \<Rightarrow> int"

text \<open>\<open>d.setHours(hours, minutes, 0, 0)\<close>: a NaN argument makes the date invalid.\<close>

fun setHours :: "LocalTime \<Rightarrow> int option \<Rightarrow> int option \<Rightarrow> date \<Rightarrow> date" where
  "setHours z (Some h) (Some m) (Date t) = Date (hoursAt z h m t)"
| "setHours z _ _ _ = InvalidDate"

text \<open>\<open>d.setDate(d.getDate() + 1)\<close>.\<close>

fun addDay :: "LocalTime \<Rightarrow> date \<Rightarrow> date" where
  "addDay z (Date t) = Date (nextDate z t)"
| "addDay z InvalidDate = InvalidDate"

text \<open>Relational comparison of dates compares time values; with NaN it is false.\<close>

fun date_lt :: "date \<Rightarrow> date \<Rightarrow> bool" where
  "date_lt (Date a) (Date b) = (a < b)"
| "date_lt _ _ = False"

fun date_ge :: "date \<Rightarrow> date \<Rightarrow> bool" where
  "date_ge (Date a) (Date b) = (b \<le> a)"
| "date_ge _ _ = False"

section \<open>Timer engine\<close>

text \<open>
  \<open>startTimer\<close> (lines 138-157). In time mode the source reads the clock twice, once for
  \<open>targetDate = new Date()\<close> (\<open>now1\<close>) and once in the comparison
  \<open>targetDate < new Date()\<close> (\<open>now2\<close>); in duration mode it reads \<open>Date.now()\<close> once
  (\<open>now1\<close>). \<open>z\<close> is the calendar of the host and \<open>other\<close> its reading of the strings
  that \<open>js_Number\<close> leaves to it.
\<close>

definition startTimer :: "LocalTime \<Rightarrow> (string \<Rightarrow> int option) \<Rightarrow> int \<Rightarrow> int \<Rightarrow> App \<Rightarrow> App" where
  "startTimer z other now1 now2 s =
     (case timerType s of
        time \<Rightarrow>
          if targetTime s = [] then s
          else
            let parts = map (js_Number other) (split_on CHR '':'' (targetTime s));
                targetDate = setHours z (element parts 0) (element parts 1) (Date now1);
                targetDate' = (if date_lt targetDate (Date now2) then addDay z targetDate
                               else targetDate)
            in s\<lparr>endTime := Some targetDate'\<rparr>
      | duration \<Rightarrow>
          let h = hours (durationInput s);
              m = minutes (durationInput s);
              sec = seconds (durationInput s)
          in if h = 0 \<and> m = 0 \<and> sec = 0 then s
             else
               let totalSeconds = (h * 3600) + (m * 60) + sec
               in s\<lparr>endTime := Some (Date (now1 + totalSeconds * 1000))\<rparr>)"

definition stopTimer :: "App \<Rightarrow> App" where
  "stopTimer s = s\<lparr>endTime := None\<rparr>"

text \<open>
  \<open>playAlarm\<close> (lines 163-172). The interval callback that calls it was created when
  \<open>endTime\<close> last changed, so the \<open>isBGMPlaying\<close> it reads is the value of that render,
  passed here as \<open>playing_seen\<close>.
\<close>

definition playAlarm :: "bool \<Rightarrow> App \<Rightarrow> App" where
  "playAlarm playing_seen s =
     (if audioRef s then
        let s1 = (if bgmRef s \<and> playing_seen
                  then s\<lparr>isBGMPlaying := False,
                         trace := trace s @ [BgmPause, BgmSetCurrentTime 0]\<rparr>
                  else s)
        in s1\<lparr>trace := trace s1 @ [AlarmPlay]\<rparr>
      else s)"

text \<open>
  The interval callback (lines 123-133): \<open>now1\<close> is the clock read of
  \<open>setCurrentTime(new Date())\<close>, \<open>now2\<close> that of \<open>const now = new Date()\<close>.
  \<open>clearInterval(timerRef.current)\<close> has no effect, as \<open>timerRef\<close> is never assigned.
\<close>

definition tick :: "bool \<Rightarrow> int \<Rightarrow> int \<Rightarrow> App \<Rightarrow> App" where
  "tick playing_seen now1 now2 s =
     (let s1 = s\<lparr>currentTime := now1\<rparr>
      in case endTime s1 of
           None \<Rightarrow> s1
         | Some e \<Rightarrow>
             if date_ge (Date now2) e then (playAlarm playing_seen s1)\<lparr>endTime := None\<rparr>
             else s1)"

text \<open>A run of ticks, each with its two clock reads.\<close>

fun run_ticks :: "bool \<Rightarrow> (int \<times> int) list \<Rightarrow> App \<Rightarrow> App" where
  "run_ticks playing_seen [] s = s"
| "run_ticks playing_seen ((now1, now2) # ts) s =
     run_ticks playing_seen ts (tick playing_seen now1 now2 s)"

text \<open>
  \<open>getTimeLeft\<close> (lines 207-216), read at the instant \<open>now\<close>: first the number of
  seconds \<open>diff\<close>, then its rendering. With an invalid date every part is NaN.
\<close>

definition timeLeftSeconds :: "int \<Rightarrow> int \<Rightarrow> int" where
  "timeLeftSeconds e now = max 0 ((e - now) div 1000)"

definition formatTimeLeft :: "int \<Rightarrow> string" where
  "formatTimeLeft diff =
     (let h = diff div 3600;
          m = (diff mod 3600) div 60;
          sec = diff mod 60
      in padStart2 (toString h) @ '':'' @ padStart2 (toString m) @ '':''
           @ padStart2 (toString sec))"

definition getTimeLeft :: "int \<Rightarrow> App \<Rightarrow> string option" where
  "getTimeLeft now s =
     (case endTime s of
        None \<Rightarrow> None
      | Some InvalidDate \<Rightarrow> Some ''NaN:NaN:NaN''
      | Some (Date e) \<Rightarrow> Some (formatTimeLeft (timeLeftSeconds e now)))"

section \<open>Track library\<close>

text \<open>
  The initializer of \<open>tracks\<close> (lines 38-55) reads \<open>localStorage\<close> and calls
  \<open>JSON.parse\<close>, a function of the host that is a parameter here: \<open>None\<close> stands for a
  SyntaxError. A parsed document is a value of type \<open>json\<close>; an object keeps its members
  as an association list.
  \<open>saved\<close> is what \<open>localStorage.getItem\<close> returned, \<open>None\<close> for \<open>null\<close>; the
  guard \<open>!saved\<close> holds for \<open>null\<close> and for the empty string.
\<close>

datatype json =
    JNull
  | JBool bool
  | JNumber int
  | JString string
  | JArray "json list"
  | JObject "(string \<times> json) list"

text \<open>
  \<open>track.filename.startsWith\<close> is callable only when \<open>track\<close> is an object whose
  member \<open>filename\<close> is a string. Otherwise the expression raises a TypeError: on
  \<open>null\<close>, on a missing member (\<open>undefined\<close>), and on a member that has no such
  method.
\<close>

fun filename_of :: "json \<Rightarrow> string option" where
  "filename_of (JObject kvs) =
     (case map_of kvs ''filename'' of
        Some (JString f) \<Rightarrow> Some f
      | _ \<Rightarrow> None)"
| "filename_of _ = None"

text \<open>
  The \<open>forEach\<close> loop of the initializer: the revocations made, and whether the loop
  ended in a TypeError. Revocations made before the error stay made.
\<close>

fun forEach_revoke :: "json list \<Rightarrow> effect list \<times> bool" where
  "forEach_revoke [] = ([], False)"
| "forEach_revoke (t # ts) =
     (case filename_of t of
        None \<Rightarrow> ([], True)
      | Some f \<Rightarrow>
          (let r = forEach_revoke ts
           in ((if startsWith f ''blob:'' then [RevokeObjectURL f] else []) @ fst r, snd r)))"

definition init_tracks :: "(string \<Rightarrow> json option) \<Rightarrow> string option \<Rightarrow> BGMTrack list \<times> effect list" where
  "init_tracks JSON_parse saved =
     (case saved of
        None \<Rightarrow> ([], [])
      | Some str \<Rightarrow>
          if str = [] then ([], [])
          else (case JSON_parse str of
                  None \<Rightarrow> ([], [ConsoleError ''Error loading tracks:''])
                | Some (JArray ts) \<Rightarrow>
                    (let r = forEach_revoke ts
                     in ([], fst r @ (if snd r then [ConsoleError ''Error loading tracks:'']
                                      else [])))
                | Some _ \<Rightarrow> ([], [ConsoleError ''Error loading tracks:''])))"

text \<open>The state after the first render: the \<open>useState\<close> defaults of lines 27-60.\<close>

definition initial_App :: "(string \<Rightarrow> json option) \<Rightarrow> int \<Rightarrow> string option \<Rightarrow> App" where
  "initial_App JSON_parse now saved =
     \<lparr>currentTime = now, timerType = time, targetTime = [],
      durationInput = \<lparr>hours = 0, minutes = 0, seconds = 0\<rparr>,
      endTime = None, isBGMPlaying = False, isBGMLoaded = False,
      tracks = fst (init_tracks JSON_parse saved), selectedTrack = None,
      showUploadForm = False, uploadError = None, volume = 1 / 2,
      audioRef = True, bgmRef = True, storage = saved,
      trace = snd (init_tracks JSON_parse saved)\<rparr>"

subsection \<open>Upload\<close>

record File =
  file_name :: string
  file_size :: nat
  file_type :: string

text \<open>
  What \<open>reader.onload\<close> closes over: the timestamp and the file of the \<open>onChange\<close> call
  that created the reader, and the \<open>tracks\<close> of the render that call belongs to.
\<close>

record PendingRead =
  timestamp :: int
  picked :: File
  tracks_seen :: "BGMTrack list"

text \<open>
  \<open>onChange\<close> of the file input (lines 251-314). \<open>timestamp\<close> is \<open>Date.now()\<close>;
  \<open>read_throws\<close> says whether the \<open>try\<close> block that starts the read raised. The
  result holds the read that is now pending, if any. The locals \<open>ext\<close> and \<open>filename\<close>
  of lines 271-272 are never used; \<open>ext_of\<close> records how the source computes the
  extension.
\<close>

definition ext_of :: "string \<Rightarrow> string" where
  "ext_of nm = last (split_on CHR ''.'' nm)"

definition onChange_file :: "int \<Rightarrow> bool \<Rightarrow> File option \<Rightarrow> App \<Rightarrow> App \<times> PendingRead option" where
  "onChange_file ts read_throws fo s =
     (case fo of
        None \<Rightarrow> (s, None)
      | Some f \<Rightarrow>
          if file_size f > MAX_FILE_SIZE then (s\<lparr>uploadError := Some FileTooLarge\<rparr>, None)
          else if file_type f \<notin> set ACCEPTED_FORMATS
            then (s\<lparr>uploadError := Some UnsupportedFormat\<rparr>, None)
          else
            let s1 = s\<lparr>uploadError := None\<rparr>
            in if read_throws
               then (s1\<lparr>uploadError := Some UploadFailed,
                        trace := trace s1 @ [ConsoleError ''Upload error:'']\<rparr>, None)
               else (s1, Some \<lparr>timestamp = ts, picked = f, tracks_seen = tracks s\<rparr>))"

text \<open>
  The composer placeholder of line 294 is a two-character Japanese word meaning
  "unknown"; it is kept as its six UTF-8 bytes.
\<close>

definition composer_placeholder :: string where
  "composer_placeholder =
     [char_of (228 :: nat), char_of (184 :: nat), char_of (141 :: nat),
      char_of (230 :: nat), char_of (152 :: nat), char_of (142 :: nat)]"

text \<open>\<open>file.name.split('.')[0]\<close>; the split is never empty, so element 0 exists.\<close>

definition title_of :: "string \<Rightarrow> string" where
  "title_of nm = (case split_on CHR ''.'' nm of [] \<Rightarrow> [] | w # ws \<Rightarrow> w)"

definition newTrack :: "string \<Rightarrow> string \<Rightarrow> PendingRead \<Rightarrow> BGMTrack" where
  "newTrack blobUrl isoNow p =
     \<lparr>track_id = toString (timestamp p),
      title = title_of (file_name (picked p)),
      composer = composer_placeholder,
      filename = blobUrl,
      originalName = file_name (picked p),
      track_size = file_size (picked p),
      track_type = file_type (picked p),
      uploadedAt = isoNow\<rparr>"

text \<open>
  \<open>reader.onload\<close> (lines 281-307). \<open>has_result\<close> is the truth value of
  \<open>event.target?.result\<close>, \<open>blobUrl\<close> what \<open>URL.createObjectURL\<close> returned, \<open>isoNow\<close>
  what \<open>new Date().toISOString()\<close> returned, and \<open>JSON_stringify\<close> the serializer of the
  host.
\<close>

definition reader_onload :: "(BGMTrack list \<Rightarrow> string) \<Rightarrow> bool \<Rightarrow> string \<Rightarrow> string \<Rightarrow> PendingRead \<Rightarrow> App \<Rightarrow> App" where
  "reader_onload JSON_stringify has_result blobUrl isoNow p s =
     (if \<not> has_result then s
      else
        let t = newTrack blobUrl isoNow p;
            updatedTracks = tracks_seen p @ [t]
        in s\<lparr>tracks := updatedTracks,
             storage := Some (JSON_stringify updatedTracks),
             selectedTrack := Some t,
             showUploadForm := False\<rparr>)"

subsection \<open>Select and delete\<close>

text \<open>The select button of a track row (lines 349-355).\<close>

definition onClick_select :: "BGMTrack \<Rightarrow> App \<Rightarrow> App" where
  "onClick_select track s =
     (let s1 = (if isBGMPlaying s \<and> bgmRef s then s\<lparr>trace := trace s @ [BgmPause]\<rparr> else s)
      in s1\<lparr>selectedTrack := Some track, isBGMPlaying := False\<rparr>)"

text \<open>
  The delete button of a track row (lines 362-374). \<open>selectedTrack?.id === track.id\<close>
  is false when nothing is selected.
\<close>

definition is_selected :: "BGMTrack \<Rightarrow> App \<Rightarrow> bool" where
  "is_selected track s =
     (case selectedTrack s of None \<Rightarrow> False | Some sel \<Rightarrow> track_id sel = track_id track)"

definition onClick_delete :: "(BGMTrack list \<Rightarrow> string) \<Rightarrow> BGMTrack \<Rightarrow> App \<Rightarrow> App" where
  "onClick_delete JSON_stringify track s =
     (let s1 = (if is_selected track s
                then s\<lparr>selectedTrack := None, isBGMPlaying := False,
                       trace := trace s @ (if bgmRef s then [BgmPause] else [])\<rparr>
                else s);
          s2 = (if startsWith (filename track) ''blob:''
                then s1\<lparr>trace := trace s1 @ [RevokeObjectURL (filename track)]\<rparr>
                else s1);
          updatedTracks = filter (\<lambda>t. track_id t \<noteq> track_id track) (tracks s)
      in s2\<lparr>tracks := updatedTracks, storage := Some (JSON_stringify updatedTracks)\<rparr>)"

section \<open>BGM player\<close>

text \<open>
  The effect keyed on \<open>selectedTrack\<close> (lines 66-113). Its body \<open>loadAudio\<close> assigns
  the two handlers and the volume and then calls \<open>load()\<close> unless \<open>isBGMLoaded\<close>, the
  value of the render the effect belongs to. The \<open>try\<close> block can leave through its
  \<open>catch\<close> at the volume assignment or at \<open>load()\<close>; the call that raised is in the
  trace, as it was made.
\<close>

datatype setup_result = SetupOk | VolumeThrows | LoadThrows

definition loadAudio :: "setup_result \<Rightarrow> App \<Rightarrow> App" where
  "loadAudio r s =
     (if \<not> bgmRef s then s
      else
        let s1 = s\<lparr>trace := trace s @ [ConsoleLog ''Setting up BGM audio...'', BgmSetHandlers]\<rparr>
        in if r = VolumeThrows
           then s1\<lparr>isBGMLoaded := False,
                    trace := trace s1 @ [BgmSetVolume (volume s),
                                         ConsoleError ''Error in BGM setup:'']\<rparr>
           else
             let s2 = s1\<lparr>trace := trace s1 @ [BgmSetVolume (volume s)]\<rparr>
             in if \<not> isBGMLoaded s
                then (if r = LoadThrows
                      then s2\<lparr>isBGMLoaded := False,
                               trace := trace s2 @ [BgmLoad, ConsoleError ''Error in BGM setup:'']\<rparr>
                      else s2\<lparr>trace := trace s2 @ [BgmLoad, ConsoleLog ''BGM load called'']\<rparr>)
                else s2)"

text \<open>
  React runs the effect after a render in which \<open>selectedTrack\<close> differs from the one
  of the previous render, \<open>prev\<close>.
\<close>

definition useEffect_selectedTrack :: "setup_result \<Rightarrow> BGMTrack option \<Rightarrow> App \<Rightarrow> App" where
  "useEffect_selectedTrack r prev s = (if selectedTrack s = prev then s else loadAudio r s)"

text \<open>
  The two handlers the effect installs. The cleanup of the effect removes them when it
  clears \<open>mounted\<close>, so they only run while \<open>mounted\<close> holds.
\<close>

definition oncanplaythrough :: "App \<Rightarrow> App" where
  "oncanplaythrough s =
     s\<lparr>isBGMLoaded := True, trace := trace s @ [ConsoleLog ''BGM can play through'']\<rparr>"

definition onerror :: "App \<Rightarrow> App" where
  "onerror s =
     s\<lparr>isBGMLoaded := False, trace := trace s @ [ConsoleError ''BGM loading error:'']\<rparr>"






section \<open>Duration fields\<close>

text \<open>
  The three number inputs (lines 452-589). \<open>onChange\<close> receives \<open>parsed\<close>, the result of
  \<open>parseInt(e.target.value)\<close> with \<open>None\<close> for NaN; \<open>x || 0\<close> replaces NaN (and 0)
  by 0. \<open>onKeyDown\<close> receives the key: the two arrows, a key named by one decimal
  digit with \<open>parseInt(e.key)\<close> as \<open>d\<close>, Backspace, or any other key. The updates
  written \<open>prev => ...\<close> read the current state; the expressions that read
  \<open>durationInput\<close> directly read the value of the render that created the handler,
  passed here as \<open>shown\<close>.
  \<open>Focus n\<close> is the call of \<open>focus()\<close> on the input with tab index \<open>n\<close>.
\<close>

datatype Key = ArrowUp | ArrowDown | Digit nat | Backspace | OtherKey

definition or_zero :: "int option \<Rightarrow> int" where
  "or_zero parsed = (case parsed of None \<Rightarrow> 0 | Some n \<Rightarrow> n)"

definition hours_onChange :: "int option \<Rightarrow> App \<Rightarrow> App" where
  "hours_onChange parsed s = s\<lparr>durationInput := (durationInput s)\<lparr>hours := max 0 (min 23 (or_zero parsed))\<rparr>\<rparr>"

definition hours_onKeyDown :: "DurationInput \<Rightarrow> Key \<Rightarrow> App \<Rightarrow> App" where
  "hours_onKeyDown shown key s =
     (case key of
        ArrowUp \<Rightarrow> s\<lparr>durationInput := (durationInput s)\<lparr>hours := min 23 (hours (durationInput s) + 1)\<rparr>\<rparr>
      | ArrowDown \<Rightarrow> s\<lparr>durationInput := (durationInput s)\<lparr>hours := max 0 (hours (durationInput s) - 1)\<rparr>\<rparr>
      | Digit d \<Rightarrow>
          let newValue = js_rem (hours shown * 10 + int d) 100;
              s1 = s\<lparr>durationInput := (durationInput s)\<lparr>hours := min 23 newValue\<rparr>\<rparr>
          in if hours shown \<ge> 2 \<or> newValue > 23 then s1\<lparr>trace := trace s1 @ [Focus 2]\<rparr>
             else s1
      | Backspace \<Rightarrow>
          if hours shown = 0 then s\<lparr>trace := trace s @ [Focus 3]\<rparr> else s
      | OtherKey \<Rightarrow> s)"

definition minutes_onChange :: "int option \<Rightarrow> App \<Rightarrow> App" where
  "minutes_onChange parsed s = s\<lparr>durationInput := (durationInput s)\<lparr>minutes := max 0 (min 59 (or_zero parsed))\<rparr>\<rparr>"

definition minutes_onKeyDown :: "DurationInput \<Rightarrow> Key \<Rightarrow> App \<Rightarrow> App" where
  "minutes_onKeyDown shown key s =
     (case key of
        ArrowUp \<Rightarrow> s\<lparr>durationInput := (durationInput s)\<lparr>minutes := min 59 (minutes (durationInput s) + 1)\<rparr>\<rparr>
      | ArrowDown \<Rightarrow> s\<lparr>durationInput := (durationInput s)\<lparr>minutes := max 0 (minutes (durationInput s) - 1)\<rparr>\<rparr>
      | Digit d \<Rightarrow>
          let newValue = js_rem (minutes shown * 10 + int d) 100;
              s1 = s\<lparr>durationInput := (durationInput s)\<lparr>minutes := min 59 newValue\<rparr>\<rparr>
          in if minutes shown \<ge> 5 \<or> newValue > 59 then s1\<lparr>trace := trace s1 @ [Focus 3]\<rparr>
             else s1
      | Backspace \<Rightarrow>
          if minutes shown = 0 then s\<lparr>trace := trace s @ [Focus 1]\<rparr> else s
      | OtherKey \<Rightarrow> s)"

definition seconds_onChange :: "int option \<Rightarrow> App \<Rightarrow> App" where
  "seconds_onChange parsed s = s\<lparr>durationInput := (durationInput s)\<lparr>seconds := max 0 (min 59 (or_zero parsed))\<rparr>\<rparr>"

definition seconds_onKeyDown :: "DurationInput \<Rightarrow> Key \<Rightarrow> App \<Rightarrow> App" where
  "seconds_onKeyDown shown key s =
     (case key of
        ArrowUp \<Rightarrow> s\<lparr>durationInput := (durationInput s)\<lparr>seconds := min 59 (seconds (durationInput s) + 1)\<rparr>\<rparr>
      | ArrowDown \<Rightarrow> s\<lparr>durationInput := (durationInput s)\<lparr>seconds := max 0 (seconds (durationInput s) - 1)\<rparr>\<rparr>
      | Digit d \<Rightarrow>
          let newValue = js_rem (seconds shown * 10 + int d) 100;
              s1 = s\<lparr>durationInput := (durationInput s)\<lparr>seconds := min 59 newValue\<rparr>\<rparr>
          in if seconds shown \<ge> 5 \<or> newValue > 59 then s1\<lparr>trace := trace s1 @ [Blur]\<rparr>
             else s1
      | Backspace \<Rightarrow>
          if seconds shown = 0 then s\<lparr>trace := trace s @ [Focus 2]\<rparr> else s
      | OtherKey \<Rightarrow> s)"

text \<open>Every event that changes \<open>durationInput\<close>, and the handler it reaches.\<close>

datatype mutation =
    HoursChange "int option"
  | HoursKey Key
  | MinutesChange "int option"
  | MinutesKey Key
  | SecondsChange "int option"
  | SecondsKey Key

fun mutate :: "DurationInput \<Rightarrow> mutation \<Rightarrow> App \<Rightarrow> App" where
  "mutate shown (HoursChange parsed) s = hours_onChange parsed s"
| "mutate shown (HoursKey key) s = hours_onKeyDown shown key s"
| "mutate shown (MinutesChange parsed) s = minutes_onChange parsed s"
| "mutate shown (MinutesKey key) s = minutes_onKeyDown shown key s"
| "mutate shown (SecondsChange parsed) s = seconds_onChange parsed s"
| "mutate shown (SecondsKey key) s = seconds_onKeyDown shown key s"

section \<open>Notions of the specification\<close>

text \<open>The range of the duration input: hours 0-23, minutes and seconds 0-59.\<close>

definition DurationInput_ok :: "DurationInput \<Rightarrow> bool" where
  "DurationInput_ok d =
     (0 \<le> hours d \<and> hours d \<le> 23 \<and> 0 \<le> minutes d \<and> minutes d \<le> 59
      \<and> 0 \<le> seconds d \<and> seconds d \<le> 59)"

text \<open>The value of a time input: two digits, a colon, two digits.\<close>

definition pad2 :: "nat \<Rightarrow> string" where
  "pad2 n = [digit_char (n div 10), digit_char (n mod 10)]"

definition hhmm :: "nat \<Rightarrow> nat \<Rightarrow> string" where
  "hhmm h m = pad2 h @ CHR '':'' # pad2 m"

text \<open>
  A file name with its extension stripped: the name up to its last dot, the whole name
  when it has no dot.
\<close>

definition strip_extension :: "string \<Rightarrow> string" where
  "strip_extension nm =
     (if CHR ''.'' \<in> set nm then rev (tl (dropWhile (\<lambda>c. c \<noteq> CHR ''.'') (rev nm))) else nm)"

text \<open>How often the alarm element has been asked to play.\<close>

definition alarms :: "App \<Rightarrow> nat" where
  "alarms s = count_list (trace s) AlarmPlay"

text \<open>The \<open>JSON.parse\<close> result of a persisted sequence of tracks.\<close>

definition json_of_track :: "BGMTrack \<Rightarrow> json" where
  "json_of_track t =
     JObject [(''id'', JString (track_id t)), (''title'', JString (title t)),
              (''composer'', JString (composer t)), (''filename'', JString (filename t)),
              (''originalName'', JString (originalName t)),
              (''size'', JNumber (int (track_size t))), (''type'', JString (track_type t)),
              (''uploadedAt'', JString (uploadedAt t))]"

text \<open>
  The persisted entry of the specification: a sequence of Track metadata objects, each
  with the members \<open>id\<close>, \<open>title\<close>, \<open>composer\<close>, \<open>filename\<close>, \<open>originalName\<close>,
  \<open>type\<close> and \<open>uploadedAt\<close>, which are strings, and \<open>size\<close>, which is a number.
\<close>

fun is_string :: "json \<Rightarrow> bool" where
  "is_string (JString v) = True"
| "is_string _ = False"

fun is_number :: "json \<Rightarrow> bool" where
  "is_number (JNumber v) = True"
| "is_number _ = False"

definition has_member :: "(json \<Rightarrow> bool) \<Rightarrow> string \<Rightarrow> (string \<times> json) list \<Rightarrow> bool" where
  "has_member P k kvs = (case map_of kvs k of None \<Rightarrow> False | Some v \<Rightarrow> P v)"

fun is_track :: "json \<Rightarrow> bool" where
  "is_track (JObject kvs) =
     (has_member is_string ''id'' kvs \<and> has_member is_string ''title'' kvs
      \<and> has_member is_string ''composer'' kvs \<and> has_member is_string ''filename'' kvs
      \<and> has_member is_string ''originalName'' kvs \<and> has_member is_number ''size'' kvs
      \<and> has_member is_string ''type'' kvs \<and> has_member is_string ''uploadedAt'' kvs)"
| "is_track _ = False"

fun track_sequence :: "json \<Rightarrow> bool" where
  "track_sequence (JArray ts) = list_all is_track ts"
| "track_sequence _ = False"

text \<open>The file names of the elements of a parsed array that have one.\<close>

definition filenames :: "json list \<Rightarrow> string list" where
  "filenames ts = List.map_filter filename_of ts"

section \<open>Concrete states\<close>

text \<open>The first render with no persisted entry, at instant 0.\<close>

definition App0 :: App where
  "App0 = initial_App (\<lambda>str. None) 0 None"

text \<open>Two uploaded tracks, and a state in which the first is selected, loaded and playing.\<close>

definition trackA :: BGMTrack where
  "trackA = \<lparr>track_id = ''1700000000001'', title = ''rain'', composer = composer_placeholder,
             filename = ''blob:a'', originalName = ''rain.mp3'', track_size = 1000,
             track_type = ''audio/mpeg'', uploadedAt = ''2023-11-14''\<rparr>"

definition trackB :: BGMTrack where
  "trackB = \<lparr>track_id = ''1700000000002'', title = ''wind'', composer = composer_placeholder,
             filename = ''blob:b'', originalName = ''wind.ogg'', track_size = 2000,
             track_type = ''audio/ogg'', uploadedAt = ''2023-11-15''\<rparr>"

definition App_AB :: App where
  "App_AB = App0\<lparr>tracks := [trackA, trackB], selectedTrack := Some trackA,
                 isBGMPlaying := True, isBGMLoaded := True\<rparr>"

text \<open>A stand-in for \<open>JSON.stringify\<close> and one for \<open>JSON.parse\<close>.\<close>

definition ids_of :: "BGMTrack list \<Rightarrow> string" where
  "ids_of ts = concat (map (\<lambda>t. track_id t @ '';'') ts)"

text \<open>
  A parser that knows four entries: the two tracks, \<open>null\<close>, an array of one object
  that has a file name and nothing else, and an array of \<open>null\<close> and the second track.
  Every other string, the empty one included, is a SyntaxError.
\<close>

definition parse_AB :: "string \<Rightarrow> json option" where
  "parse_AB str =
     (if str = ''AB'' then Some (JArray (map json_of_track [trackA, trackB]))
      else if str = ''null'' then Some JNull
      else if str = ''F'' then Some (JArray [JObject [(''filename'', JString ''x'')]])
      else if str = ''NB'' then Some (JArray [JNull, json_of_track trackB])
      else None)"

text \<open>
  A time zone with a fixed offset \<open>tz\<close> from UTC, in milliseconds: every calendar day
  has 86400000 ms. \<open>fixed_day tz t\<close> is the number of the local day of the instant
  \<open>t\<close>. \<open>no_other\<close> reads every string that \<open>js_Number\<close> leaves to the host as NaN.
\<close>

definition MS_PER_DAY :: int where
  "MS_PER_DAY = 86400000"

definition startOfDay :: "int \<Rightarrow> int \<Rightarrow> int" where
  "startOfDay tz t = t - ((t + tz) mod MS_PER_DAY)"

definition fixed_zone :: "int \<Rightarrow> LocalTime" where
  "fixed_zone tz =
     \<lparr>hoursAt = (\<lambda>h m t. startOfDay tz t + (h * 3600 + m * 60) * 1000),
      nextDate = (\<lambda>t. t + MS_PER_DAY)\<rparr>"

definition fixed_day :: "int \<Rightarrow> int \<Rightarrow> int" where
  "fixed_day tz t = (t + tz) div MS_PER_DAY"

definition no_other :: "string \<Rightarrow> int option" where
  "no_other str = None"

text \<open>
  One complete upload: the file is picked at the instant \<open>ts\<close> and its read completes
  before anything else happens.
\<close>

definition upload :: "(BGMTrack list \<Rightarrow> string) \<Rightarrow> int \<Rightarrow> string \<Rightarrow> string \<Rightarrow> File \<Rightarrow> App \<Rightarrow> App" where
  "upload sf ts url stamp f s =
     (case snd (onChange_file ts False (Some f) s) of
        None \<Rightarrow> fst (onChange_file ts False (Some f) s)
      | Some p \<Rightarrow> reader_onload sf True url stamp p (fst (onChange_file ts False (Some f) s)))"

text \<open>
  A second upload made at the timestamp of the first gets the id of the first. The
  states below hold both tracks: in one the second is selected, loaded and playing, in
  the other a third track is selected.
\<close>

definition trackA2 :: BGMTrack where
  "trackA2 = trackB\<lparr>track_id := ''1700000000001''\<rparr>"

definition trackC :: BGMTrack where
  "trackC = \<lparr>track_id = ''1700000000003'', title = ''sea'', composer = composer_placeholder,
             filename = ''blob:c'', originalName = ''sea.wav'', track_size = 3000,
             track_type = ''audio/wav'', uploadedAt = ''2023-11-16''\<rparr>"

definition App_twins_playing :: App where
  "App_twins_playing = App0\<lparr>tracks := [trackA, trackA2], selectedTrack := Some trackA2,
                            isBGMPlaying := True, isBGMLoaded := True\<rparr>"

definition App_twins_other :: App where
  "App_twins_other = App0\<lparr>tracks := [trackA, trackA2, trackC], selectedTrack := Some trackC\<rparr>"

section \<open>Properties of the host-language functions\<close>

lemma is_digit_digit_char: "d < 10 \<Longrightarrow> is_digit (digit_char d)"
  by (simp add: is_digit_def digit_char_def)

lemma digit_val_digit_char: "d < 10 \<Longrightarrow> digit_val (digit_char d) = int d"
  by (simp add: digit_val_def digit_char_def)

lemma digit_char_not_colon: "d < 10 \<Longrightarrow> digit_char d \<noteq> CHR '':''"
proof
  assume d: "d < 10" and e: "digit_char d = CHR '':''"
  from e have "(of_char (digit_char d) :: nat) = of_char CHR '':''" by simp
  with d show False by (simp add: digit_char_def)
qed

lemma js_Number_pad2: "n < 100 \<Longrightarrow> js_Number other (pad2 n) = Some (int n)"
proof -
  assume n: "n < 100"
  then have a: "n div 10 < 10" and b: "n mod 10 < 10" by simp_all
  have "int (n div 10) * 10 + int (n mod 10) = int n"
    by (metis mult.commute of_nat_add of_nat_mult of_nat_numeral mult_div_mod_eq)
  then show ?thesis
    using a b by (simp add: js_Number_def pad2_def is_digit_digit_char digit_val_digit_char)
qed

lemma split_on_hhmm:
  "h < 100 \<Longrightarrow> m < 100 \<Longrightarrow> split_on CHR '':'' (hhmm h m) = [pad2 h, pad2 m]"
proof -
  assume h: "h < 100" and m: "m < 100"
  then have "h div 10 < 10" "h mod 10 < 10" "m div 10 < 10" "m mod 10 < 10" by simp_all
  then show ?thesis
    by (simp add: hhmm_def pad2_def digit_char_not_colon)
qed

lemma hhmm_nonempty: "hhmm h m \<noteq> []"
  by (simp add: hhmm_def pad2_def)

subsection \<open>The zone with a fixed offset\<close>

lemma fixed_zone_fields:
  "hoursAt (fixed_zone tz) h m t = startOfDay tz t + (h * 3600 + m * 60) * 1000"
  "nextDate (fixed_zone tz) t = t + MS_PER_DAY"
  by (simp_all add: fixed_zone_def)

lemma fixed_day_mono: "a \<le> b \<Longrightarrow> fixed_day tz a \<le> fixed_day tz b"
  by (simp add: fixed_day_def MS_PER_DAY_def zdiv_mono1)

lemma fixed_day_nextDate: "fixed_day tz (nextDate (fixed_zone tz) t) = fixed_day tz t + 1"
proof -
  have "t + MS_PER_DAY + tz = (t + tz) + MS_PER_DAY" by simp
  then have "(t + MS_PER_DAY + tz) div MS_PER_DAY = ((t + tz) + MS_PER_DAY) div MS_PER_DAY"
    by (rule arg_cong)
  also have "\<dots> = (t + tz) div MS_PER_DAY + 1" by (simp add: MS_PER_DAY_def)
  finally show ?thesis by (simp add: fixed_day_def fixed_zone_fields)
qed

lemma fixed_day_hoursAt:
  assumes "h < 24" "m < 60"
  shows "fixed_day tz (hoursAt (fixed_zone tz) (int h) (int m) t) = fixed_day tz t"
proof -
  let ?x = "(int h * 3600 + int m * 60) * 1000"
  let ?q = "(t + tz) div MS_PER_DAY"
  have x: "0 \<le> ?x \<and> ?x < MS_PER_DAY" using assms by (simp add: MS_PER_DAY_def)
  have "startOfDay tz t + tz = ?q * MS_PER_DAY"
    by (simp add: startOfDay_def minus_mod_eq_div_mult [symmetric])
  then have "hoursAt (fixed_zone tz) (int h) (int m) t + tz = ?x + ?q * MS_PER_DAY"
    by (simp add: fixed_zone_fields)
  then have "fixed_day tz (hoursAt (fixed_zone tz) (int h) (int m) t)
      = (?x + ?q * MS_PER_DAY) div MS_PER_DAY"
    by (simp add: fixed_day_def)
  also have "\<dots> = ?q + ?x div MS_PER_DAY"
    by (simp add: MS_PER_DAY_def)
  also have "\<dots> = ?q" using x by simp
  finally show ?thesis by (simp add: fixed_day_def)
qed

section \<open>Starting the timer\<close>

lemma startTimer_time_endTime:
  assumes "timerType s = time" "targetTime s = hhmm h m" "h < 100" "m < 100"
  shows "endTime (startTimer z other now1 now2 s) =
           Some (Date (if hoursAt z (int h) (int m) now1 < now2
                       then nextDate z (hoursAt z (int h) (int m) now1)
                       else hoursAt z (int h) (int m) now1))"
  using assms
  by (simp add: startTimer_def hhmm_nonempty split_on_hhmm js_Number_pad2 Let_def)

lemma startTimer_duration_zero:
  assumes "timerType s = duration" "hours (durationInput s) = 0" "minutes (durationInput s) = 0"
    "seconds (durationInput s) = 0"
  shows "startTimer z other now1 now2 s = s"
  using assms by (simp add: startTimer_def)

lemma startTimer_duration_endTime:
  assumes "timerType s = duration"
    "\<not> (hours (durationInput s) = 0 \<and> minutes (durationInput s) = 0 \<and> seconds (durationInput s) = 0)"
  shows "endTime (startTimer z other now1 now2 s) =
           Some (Date (now1 + (hours (durationInput s) * 3600 + minutes (durationInput s) * 60
                               + seconds (durationInput s)) * 1000))"
  using assms by (auto simp add: startTimer_def Let_def)

text \<open>
  Claim C1, as the code has it. \<open>day\<close> numbers the local calendar days: it does not
  decrease with time, \<open>setHours\<close> stays on the day of its date, and
  \<open>setDate(getDate() + 1)\<close> lands on the next day. In time mode with a target
  \<open>HH:MM\<close> (hour below 24, minute below 60) the deadline is what \<open>setHours\<close> makes of
  the first clock read, today's occurrence of that time, or that instant moved on by one
  calendar day when it is before the second clock read. The deadline lies on the day of
  the first read or on the next one; it is not before the first read when the clock did
  not run backwards, and not before the second read when both reads fall on the same
  day. In duration mode with all three fields 0 the state is returned unchanged;
  otherwise the timer is running with the deadline
  \<open>now + (hours * 3600 + minutes * 60 + seconds) * 1000\<close>.
\<close>

theorem startTimer_contract:
  "(timerType s = time \<and> targetTime s = hhmm h m \<and> h < 24 \<and> m < 60
      \<and> (\<forall>a b. a \<le> b \<longrightarrow> (day :: int \<Rightarrow> int) a \<le> day b)
      \<and> day (hoursAt z (int h) (int m) now1) = day now1
      \<and> day (nextDate z (hoursAt z (int h) (int m) now1)) = day now1 + 1 \<longrightarrow>
      (\<exists>D. endTime (startTimer z other now1 now2 s) = Some (Date D)
         \<and> D = (if hoursAt z (int h) (int m) now1 < now2
                then nextDate z (hoursAt z (int h) (int m) now1)
                else hoursAt z (int h) (int m) now1)
         \<and> day D = (if hoursAt z (int h) (int m) now1 < now2 then day now1 + 1 else day now1)
         \<and> (now1 \<le> now2 \<longrightarrow> now1 \<le> D)
         \<and> (day now2 = day now1 \<longrightarrow> now2 \<le> D)))
   \<and> (timerType s = duration \<and> hours (durationInput s) = 0 \<and> minutes (durationInput s) = 0
        \<and> seconds (durationInput s) = 0 \<longrightarrow>
      startTimer z other now1 now2 s = s)
   \<and> (timerType s = duration
        \<and> \<not> (hours (durationInput s) = 0 \<and> minutes (durationInput s) = 0
              \<and> seconds (durationInput s) = 0) \<longrightarrow>
      endTime (startTimer z other now1 now2 s) =
        Some (Date (now1 + (hours (durationInput s) * 3600 + minutes (durationInput s) * 60
                            + seconds (durationInput s)) * 1000)))"
proof (intro conjI impI)
  assume a: "timerType s = time \<and> targetTime s = hhmm h m \<and> h < 24 \<and> m < 60
      \<and> (\<forall>a b. a \<le> b \<longrightarrow> (day :: int \<Rightarrow> int) a \<le> day b)
      \<and> day (hoursAt z (int h) (int m) now1) = day now1
      \<and> day (nextDate z (hoursAt z (int h) (int m) now1)) = day now1 + 1"
  let ?T = "hoursAt z (int h) (int m) now1"
  let ?D = "if ?T < now2 then nextDate z ?T else ?T"
  from a have mono: "\<And>a b. a \<le> b \<Longrightarrow> day a \<le> day b" by blast
  from a have e: "endTime (startTimer z other now1 now2 s) = Some (Date ?D)"
    by (intro startTimer_time_endTime) simp_all
  from a have d: "day ?D = (if ?T < now2 then day now1 + 1 else day now1)" by simp
  have p1: "now1 \<le> now2 \<longrightarrow> now1 \<le> ?D"
  proof (cases "?T < now2")
    case True
    have "\<not> ?D < now1"
    proof
      assume "?D < now1"
      then have "day ?D \<le> day now1" by (intro mono) simp
      with d True show False by simp
    qed
    then show ?thesis by simp
  next
    case False
    then show ?thesis by simp
  qed
  have p2: "day now2 = day now1 \<longrightarrow> now2 \<le> ?D"
  proof (cases "?T < now2")
    case True
    show ?thesis
    proof
      assume same: "day now2 = day now1"
      have "\<not> ?D < now2"
      proof
        assume "?D < now2"
        then have "day ?D \<le> day now2" by (intro mono) simp
        with d True same show False by simp
      qed
      then show "now2 \<le> ?D" by simp
    qed
  next
    case False
    then show ?thesis by simp
  qed
  show "\<exists>D. endTime (startTimer z other now1 now2 s) = Some (Date D)
         \<and> D = (if hoursAt z (int h) (int m) now1 < now2
                then nextDate z (hoursAt z (int h) (int m) now1)
                else hoursAt z (int h) (int m) now1)
         \<and> day D = (if hoursAt z (int h) (int m) now1 < now2 then day now1 + 1 else day now1)
         \<and> (now1 \<le> now2 \<longrightarrow> now1 \<le> D)
         \<and> (day now2 = day now1 \<longrightarrow> now2 \<le> D)"
    using e d p1 p2 by blast
next
  assume "timerType s = duration \<and> hours (durationInput s) = 0 \<and> minutes (durationInput s) = 0
        \<and> seconds (durationInput s) = 0"
  then show "startTimer z other now1 now2 s = s" by (simp add: startTimer_duration_zero)
next
  assume "timerType s = duration
        \<and> \<not> (hours (durationInput s) = 0 \<and> minutes (durationInput s) = 0
              \<and> seconds (durationInput s) = 0)"
  then show "endTime (startTimer z other now1 now2 s) =
        Some (Date (now1 + (hours (durationInput s) * 3600 + minutes (durationInput s) * 60
                            + seconds (durationInput s)) * 1000))"
    by (intro startTimer_duration_endTime) simp_all
qed

lemma hhmm_0730: "hhmm 7 30 = ''07:30''"
  by code_simp

lemma hhmm_0000: "hhmm 0 0 = ''00:00''"
  by code_simp

lemma fixed_day_all_mono: "\<forall>a b. a \<le> b \<longrightarrow> fixed_day tz a \<le> fixed_day tz b"
  by (simp add: fixed_day_mono)

theorem startTimer_contract_witness:
  "endTime (startTimer (fixed_zone 0) no_other 36000000 36000000 (App0\<lparr>targetTime := ''07:30''\<rparr>))
     = Some (Date 113400000)
   \<and> endTime (startTimer (fixed_zone 0) no_other 3600000 3600000 (App0\<lparr>targetTime := ''07:30''\<rparr>))
     = Some (Date 27000000)
   \<and> startTimer (fixed_zone 0) no_other 36000000 36000000 (App0\<lparr>timerType := duration\<rparr>)
     = App0\<lparr>timerType := duration\<rparr>
   \<and> endTime (startTimer (fixed_zone 0) no_other 36000000 36000000
        (App0\<lparr>timerType := duration, durationInput := \<lparr>hours = 1, minutes = 2, seconds = 3\<rparr>\<rparr>))
     = Some (Date 39723000)"
proof (intro conjI)
  have t: "timerType (App0\<lparr>targetTime := ''07:30''\<rparr>) = time
      \<and> targetTime (App0\<lparr>targetTime := ''07:30''\<rparr>) = hhmm 7 30 \<and> (7::nat) < 24 \<and> (30::nat) < 60"
    by (simp add: App0_def initial_App_def hhmm_0730)
  have h1: "fixed_day 0 (hoursAt (fixed_zone 0) (int 7) (int 30) t) = fixed_day 0 t" for t
    by (intro fixed_day_hoursAt) simp_all
  have n1: "fixed_day 0 (nextDate (fixed_zone 0) (hoursAt (fixed_zone 0) (int 7) (int 30) t))
      = fixed_day 0 t + 1" for t
    by (simp only: fixed_day_nextDate h1)
  show "endTime (startTimer (fixed_zone 0) no_other 36000000 36000000
      (App0\<lparr>targetTime := ''07:30''\<rparr>)) = Some (Date 113400000)"
    using startTimer_contract [of "App0\<lparr>targetTime := ''07:30''\<rparr>" 7 30 "fixed_day 0"
        "fixed_zone 0" 36000000 no_other 36000000]
      t fixed_day_all_mono [of 0] h1 [of 36000000] n1 [of 36000000]
    by (simp add: fixed_zone_fields startOfDay_def MS_PER_DAY_def)
  show "endTime (startTimer (fixed_zone 0) no_other 3600000 3600000
      (App0\<lparr>targetTime := ''07:30''\<rparr>)) = Some (Date 27000000)"
    using startTimer_contract [of "App0\<lparr>targetTime := ''07:30''\<rparr>" 7 30 "fixed_day 0"
        "fixed_zone 0" 3600000 no_other 3600000]
      t fixed_day_all_mono [of 0] h1 [of 3600000] n1 [of 3600000]
    by (simp add: fixed_zone_fields startOfDay_def MS_PER_DAY_def)
  show "startTimer (fixed_zone 0) no_other 36000000 36000000 (App0\<lparr>timerType := duration\<rparr>)
     = App0\<lparr>timerType := duration\<rparr>"
    using startTimer_contract [of "App0\<lparr>timerType := duration\<rparr>" 0 0 "fixed_day 0"
        "fixed_zone 0" 36000000 no_other 36000000]
    by (simp add: App0_def initial_App_def)
  show "endTime (startTimer (fixed_zone 0) no_other 36000000 36000000
        (App0\<lparr>timerType := duration, durationInput := \<lparr>hours = 1, minutes = 2, seconds = 3\<rparr>\<rparr>))
     = Some (Date 39723000)"
    using startTimer_contract [of "App0\<lparr>timerType := duration,
        durationInput := \<lparr>hours = 1, minutes = 2, seconds = 3\<rparr>\<rparr>" 0 0 "fixed_day 0"
        "fixed_zone 0" 36000000 no_other 36000000]
    by (simp add: App0_def initial_App_def)
qed

text \<open>
  The two clock reads can straddle midnight. In the zone with offset 0, with the target
  \<open>00:00\<close>, the first read one millisecond before midnight and the second one
  millisecond after it, today's occurrence of the target is a day back and is moved on
  to the midnight between the reads: the deadline is before the second read.
\<close>

theorem startTimer_midnight_counterexample:
  "endTime (startTimer (fixed_zone 0) no_other 86399999 86400001 (App0\<lparr>targetTime := ''00:00''\<rparr>))
     = Some (Date 86400000)
   \<and> (86400000 :: int) < 86400001"
proof -
  have "endTime (startTimer (fixed_zone 0) no_other 86399999 86400001
      (App0\<lparr>targetTime := ''00:00''\<rparr>)) =
    Some (Date (if hoursAt (fixed_zone 0) (int 0) (int 0) 86399999 < 86400001
                then nextDate (fixed_zone 0) (hoursAt (fixed_zone 0) (int 0) (int 0) 86399999)
                else hoursAt (fixed_zone 0) (int 0) (int 0) 86399999))"
    by (intro startTimer_time_endTime) (simp_all add: App0_def initial_App_def hhmm_0000)
  then show ?thesis
    by (simp add: fixed_zone_fields startOfDay_def MS_PER_DAY_def)
qed

section \<open>Ticks and expiry\<close>

lemma alarms_playAlarm: "audioRef s \<Longrightarrow> alarms (playAlarm p s) = alarms s + 1"
  by (simp add: playAlarm_def alarms_def Let_def)

lemma audioRef_playAlarm: "audioRef (playAlarm p s) = audioRef s"
  by (simp add: playAlarm_def Let_def)

lemma audioRef_tick: "audioRef (tick p now1 now2 s) = audioRef s"
  by (simp add: tick_def Let_def audioRef_playAlarm split: option.splits)

lemma tick_idle:
  "endTime s = None \<Longrightarrow> endTime (tick p now1 now2 s) = None \<and> alarms (tick p now1 now2 s) = alarms s"
  by (simp add: tick_def alarms_def)

lemma tick_fires:
  assumes "endTime s = Some (Date e)" "audioRef s" "e \<le> now2"
  shows "endTime (tick p now1 now2 s) = None \<and> alarms (tick p now1 now2 s) = alarms s + 1"
proof -
  have "alarms (playAlarm p (s\<lparr>currentTime := now1\<rparr>)) = alarms (s\<lparr>currentTime := now1\<rparr>) + 1"
    using assms(2) by (intro alarms_playAlarm) simp
  then show ?thesis using assms by (simp add: tick_def alarms_def)
qed

lemma tick_waits:
  assumes "endTime s = Some (Date e)" "now2 < e"
  shows "endTime (tick p now1 now2 s) = Some (Date e) \<and> alarms (tick p now1 now2 s) = alarms s"
  using assms by (simp add: tick_def alarms_def)

lemma timeLeftSeconds_expired: "e \<le> now \<Longrightarrow> timeLeftSeconds e now = 0"
proof -
  assume "e \<le> now"
  then have "e - now \<le> 0" by simp
  then have "(e - now) div 1000 \<le> 0 div 1000" by (intro zdiv_mono1) simp_all
  then have "(e - now) div 1000 \<le> 0" by simp
  then show ?thesis by (simp add: timeLeftSeconds_def)
qed

lemma run_ticks_idle: "endTime s = None \<Longrightarrow> alarms (run_ticks p ts s) = alarms s"
proof (induction ts arbitrary: s)
  case Nil
  then show ?case by simp
next
  case (Cons t ts)
  obtain a b where t: "t = (a, b)" by (cases t)
  from Cons.prems have "endTime (tick p a b s) = None" "alarms (tick p a b s) = alarms s"
    by (simp_all add: tick_idle)
  with Cons.IH [of "tick p a b s"] t show ?case by simp
qed

lemma run_ticks_running:
  "endTime s = Some (Date e) \<Longrightarrow> audioRef s \<Longrightarrow>
   alarms (run_ticks p ts s) = alarms s + (if \<exists>t \<in> set ts. e \<le> snd t then 1 else 0)"
proof (induction ts arbitrary: s)
  case Nil
  then show ?case by simp
next
  case (Cons t ts)
  obtain a b where t: "t = (a, b)" by (cases t)
  show ?case
  proof (cases "e \<le> b")
    case True
    with Cons.prems have "endTime (tick p a b s) = None" "alarms (tick p a b s) = alarms s + 1"
      by (simp_all add: tick_fires)
    then have "alarms (run_ticks p ts (tick p a b s)) = alarms s + 1"
      by (simp add: run_ticks_idle)
    with True t show ?thesis by simp
  next
    case False
    with Cons.prems have w: "endTime (tick p a b s) = Some (Date e)"
        "alarms (tick p a b s) = alarms s"
      by (simp_all add: tick_waits)
    have "audioRef (tick p a b s)" using Cons.prems by (simp add: audioRef_tick)
    with Cons.IH [of "tick p a b s"] w
    have "alarms (run_ticks p ts (tick p a b s)) =
            alarms s + (if \<exists>t \<in> set ts. e \<le> snd t then 1 else 0)"
      by simp
    with False t show ?thesis by simp
  qed
qed

text \<open>
  Claim C2, as the code has it. While a timer runs (and the alarm element is mounted) the
  remaining time shown at an instant is \<open>max 0 ((deadline - now) div 1000)\<close>
  seconds. A tick whose clock read is at or after the deadline finds the remaining time
  at 0, asks the alarm to play once and clears the deadline; a tick before the deadline
  changes neither. Over any run of ticks the alarm is asked to play once when some tick
  is at or after the deadline, and not at all otherwise.
\<close>

theorem tick_expiry:
  "endTime s = Some (Date e) \<and> audioRef s \<longrightarrow>
     getTimeLeft now s = Some (formatTimeLeft (max 0 ((e - now) div 1000)))
   \<and> (e \<le> now2 \<longrightarrow>
        max 0 ((e - now2) div 1000) = 0
        \<and> endTime (tick p now1 now2 s) = None
        \<and> alarms (tick p now1 now2 s) = alarms s + 1)
   \<and> (now2 < e \<longrightarrow>
        endTime (tick p now1 now2 s) = Some (Date e)
        \<and> alarms (tick p now1 now2 s) = alarms s)
   \<and> alarms (run_ticks p ts s) = alarms s + (if \<exists>t \<in> set ts. e \<le> snd t then 1 else 0)"
proof (intro impI)
  assume a: "endTime s = Some (Date e) \<and> audioRef s"
  have g: "getTimeLeft now s = Some (formatTimeLeft (max 0 ((e - now) div 1000)))"
    using a by (simp add: getTimeLeft_def timeLeftSeconds_def)
  have f: "e \<le> now2 \<longrightarrow>
        max 0 ((e - now2) div 1000) = 0
        \<and> endTime (tick p now1 now2 s) = None
        \<and> alarms (tick p now1 now2 s) = alarms s + 1"
    using a timeLeftSeconds_expired [of e now2] tick_fires [of s e now2 p now1]
    by (simp add: timeLeftSeconds_def)
  have w: "now2 < e \<longrightarrow>
        endTime (tick p now1 now2 s) = Some (Date e)
        \<and> alarms (tick p now1 now2 s) = alarms s"
    using a tick_waits [of s e now2 p now1] by simp
  have r: "alarms (run_ticks p ts s) = alarms s + (if \<exists>t \<in> set ts. e \<le> snd t then 1 else 0)"
    using a by (intro run_ticks_running) simp_all
  from g f w r show "getTimeLeft now s = Some (formatTimeLeft (max 0 ((e - now) div 1000)))
   \<and> (e \<le> now2 \<longrightarrow>
        max 0 ((e - now2) div 1000) = 0
        \<and> endTime (tick p now1 now2 s) = None
        \<and> alarms (tick p now1 now2 s) = alarms s + 1)
   \<and> (now2 < e \<longrightarrow>
        endTime (tick p now1 now2 s) = Some (Date e)
        \<and> alarms (tick p now1 now2 s) = alarms s)
   \<and> alarms (run_ticks p ts s) = alarms s + (if \<exists>t \<in> set ts. e \<le> snd t then 1 else 0)"
    by blast
qed

lemma format_zero: "formatTimeLeft 0 = ''00:00:00''"
  by code_simp

lemma format_3: "formatTimeLeft 3 = ''00:00:03''"
  by code_simp

theorem tick_expiry_witness:
  "getTimeLeft 2000 (App0\<lparr>endTime := Some (Date 5000)\<rparr>) = Some ''00:00:03''
   \<and> endTime (tick False 5000 5000 (App0\<lparr>endTime := Some (Date 5000)\<rparr>)) = None
   \<and> alarms (tick False 5000 5000 (App0\<lparr>endTime := Some (Date 5000)\<rparr>)) = 1
   \<and> endTime (tick False 4000 4000 (App0\<lparr>endTime := Some (Date 5000)\<rparr>)) = Some (Date 5000)
   \<and> alarms (run_ticks False [(4000, 4000), (5000, 5001), (6000, 6001)]
        (App0\<lparr>endTime := Some (Date 5000)\<rparr>)) = 1"
proof -
  have a0: "alarms (App0\<lparr>endTime := Some (Date 5000)\<rparr>) = 0"
    by (simp add: alarms_def App0_def initial_App_def init_tracks_def)
  have h: "endTime (App0\<lparr>endTime := Some (Date 5000)\<rparr>) = Some (Date 5000)
      \<and> audioRef (App0\<lparr>endTime := Some (Date 5000)\<rparr>)"
    by (simp add: App0_def initial_App_def)
  show ?thesis
    using h a0
      tick_expiry [of "App0\<lparr>endTime := Some (Date 5000)\<rparr>" 5000 2000 5000 False 5000
        "[(4000, 4000), (5000, 5001), (6000, 6001)]"]
      tick_expiry [of "App0\<lparr>endTime := Some (Date 5000)\<rparr>" 5000 2000 4000 False 4000 "[]"]
    by (simp add: format_3)
qed

text \<open>
  The remaining time reaches 0 up to a second before the deadline: with the deadline at
  5000 ms, a tick at 4500 ms shows \<open>00:00:00\<close>, and the alarm does not play and the
  deadline stays.
\<close>

theorem tick_zero_remaining_counterexample:
  "timeLeftSeconds 5000 4500 = 0
   \<and> getTimeLeft 4500 (App0\<lparr>endTime := Some (Date 5000)\<rparr>) = Some ''00:00:00''
   \<and> endTime (tick False 4500 4500 (App0\<lparr>endTime := Some (Date 5000)\<rparr>)) = Some (Date 5000)
   \<and> alarms (tick False 4500 4500 (App0\<lparr>endTime := Some (Date 5000)\<rparr>)) = 0"
  by (simp add: timeLeftSeconds_def getTimeLeft_def format_zero tick_def alarms_def App0_def
      initial_App_def init_tracks_def)

section \<open>Upload validation\<close>

lemma set_ACCEPTED_FORMATS:
  "set ACCEPTED_FORMATS = {''audio/mpeg'', ''audio/wav'', ''audio/ogg'', ''audio/x-m4a''}"
  by (simp add: ACCEPTED_FORMATS_def)

lemma MAX_FILE_SIZE_bytes: "MAX_FILE_SIZE = 10485760"
  by (simp add: MAX_FILE_SIZE_def)

lemma onChange_file_too_large:
  "file_size f > MAX_FILE_SIZE \<Longrightarrow>
     onChange_file ts rt (Some f) s = (s\<lparr>uploadError := Some FileTooLarge\<rparr>, None)"
  by (simp add: onChange_file_def)

lemma onChange_file_bad_format:
  "\<not> file_size f > MAX_FILE_SIZE \<Longrightarrow> file_type f \<notin> set ACCEPTED_FORMATS \<Longrightarrow>
     onChange_file ts rt (Some f) s = (s\<lparr>uploadError := Some UnsupportedFormat\<rparr>, None)"
  by (simp add: onChange_file_def)

lemma onChange_file_admitted:
  "\<not> file_size f > MAX_FILE_SIZE \<Longrightarrow> file_type f \<in> set ACCEPTED_FORMATS \<Longrightarrow>
     onChange_file ts rt (Some f) s =
       (if rt then (s\<lparr>uploadError := Some UploadFailed,
                       trace := trace s @ [ConsoleError ''Upload error:'']\<rparr>, None)
        else (s\<lparr>uploadError := None\<rparr>,
              Some \<lparr>timestamp = ts, picked = f, tracks_seen = tracks s\<rparr>))"
  by (simp add: onChange_file_def Let_def)

text \<open>
  Claim C3, as the code has it. For every candidate file the size error is set exactly
  when the size exceeds 10485760 bytes; the format error is set exactly when the size is
  within the limit and the declared type is none of the four accepted ones; a file that
  passes both checks is admitted: the error is cleared and its read is pending. A
  rejected file leaves no pending read, and the track list and the persisted list are
  unchanged.
\<close>

theorem upload_validation:
  "(uploadError (fst (onChange_file ts rt (Some f) s)) = Some FileTooLarge
      \<longleftrightarrow> file_size f > 10485760)
   \<and> (uploadError (fst (onChange_file ts rt (Some f) s)) = Some UnsupportedFormat
      \<longleftrightarrow> file_size f \<le> 10485760
          \<and> file_type f \<notin> {''audio/mpeg'', ''audio/wav'', ''audio/ogg'', ''audio/x-m4a''})
   \<and> (file_size f \<le> 10485760
        \<and> file_type f \<in> {''audio/mpeg'', ''audio/wav'', ''audio/ogg'', ''audio/x-m4a''}
        \<and> \<not> rt \<longrightarrow>
      onChange_file ts rt (Some f) s =
        (s\<lparr>uploadError := None\<rparr>, Some \<lparr>timestamp = ts, picked = f, tracks_seen = tracks s\<rparr>))
   \<and> (file_size f > 10485760
        \<or> file_type f \<notin> {''audio/mpeg'', ''audio/wav'', ''audio/ogg'', ''audio/x-m4a''} \<longrightarrow>
      snd (onChange_file ts rt (Some f) s) = None
      \<and> tracks (fst (onChange_file ts rt (Some f) s)) = tracks s
      \<and> storage (fst (onChange_file ts rt (Some f) s)) = storage s)"
proof (cases "file_size f > MAX_FILE_SIZE")
  case True
  then show ?thesis
    using onChange_file_too_large [of f ts rt s] by (simp add: MAX_FILE_SIZE_bytes)
next
  case small: False
  show ?thesis
  proof (cases "file_type f \<in> set ACCEPTED_FORMATS")
    case True
    then have ok: "file_type f \<in> {''audio/mpeg'', ''audio/wav'', ''audio/ogg'', ''audio/x-m4a''}"
      by (simp only: set_ACCEPTED_FORMATS)
    have sz: "file_size f \<le> 10485760" using small by (simp add: MAX_FILE_SIZE_bytes)
    have eq: "onChange_file ts rt (Some f) s =
       (if rt then (s\<lparr>uploadError := Some UploadFailed,
                       trace := trace s @ [ConsoleError ''Upload error:'']\<rparr>, None)
        else (s\<lparr>uploadError := None\<rparr>,
              Some \<lparr>timestamp = ts, picked = f, tracks_seen = tracks s\<rparr>))"
      using small True by (rule onChange_file_admitted)
    show ?thesis
      unfolding eq using ok sz by (cases rt) (simp_all del: insert_iff)
  next
    case False
    then have bad: "file_type f \<notin> {''audio/mpeg'', ''audio/wav'', ''audio/ogg'', ''audio/x-m4a''}"
      by (simp only: set_ACCEPTED_FORMATS not_False_eq_True)
    have sz: "file_size f \<le> 10485760" using small by (simp add: MAX_FILE_SIZE_bytes)
    have eq: "onChange_file ts rt (Some f) s = (s\<lparr>uploadError := Some UnsupportedFormat\<rparr>, None)"
      using small False by (rule onChange_file_bad_format)
    show ?thesis
      unfolding eq using bad sz by (simp del: insert_iff)
  qed
qed

theorem upload_validation_witness:
  "uploadError (fst (onChange_file 5 False
       (Some \<lparr>file_name = ''a.mp3'', file_size = 10485761, file_type = ''audio/mpeg''\<rparr>) App0))
     = Some FileTooLarge
   \<and> uploadError (fst (onChange_file 5 False
       (Some \<lparr>file_name = ''a.txt'', file_size = 10485760, file_type = ''text/plain''\<rparr>) App0))
     = Some UnsupportedFormat
   \<and> snd (onChange_file 5 False
       (Some \<lparr>file_name = ''a.txt'', file_size = 10485760, file_type = ''text/plain''\<rparr>) App0)
     = None
   \<and> snd (onChange_file 5 False
       (Some \<lparr>file_name = ''a.mp3'', file_size = 10485760, file_type = ''audio/mpeg''\<rparr>) App0)
     = Some \<lparr>timestamp = 5,
             picked = \<lparr>file_name = ''a.mp3'', file_size = 10485760, file_type = ''audio/mpeg''\<rparr>,
             tracks_seen = []\<rparr>"
  using
    upload_validation [of 5 False
      "\<lparr>file_name = ''a.mp3'', file_size = 10485761, file_type = ''audio/mpeg''\<rparr>" App0]
    upload_validation [of 5 False
      "\<lparr>file_name = ''a.txt'', file_size = 10485760, file_type = ''text/plain''\<rparr>" App0]
    upload_validation [of 5 False
      "\<lparr>file_name = ''a.mp3'', file_size = 10485760, file_type = ''audio/mpeg''\<rparr>" App0]
  by (simp add: App0_def initial_App_def init_tracks_def)

text \<open>
  The size check comes first: a file of 10485761 bytes with the type \<open>text/plain\<close>,
  which is not accepted, gets the size error and not the format error.
\<close>

theorem format_error_counterexample:
  "''text/plain'' \<notin> {''audio/mpeg'', ''audio/wav'', ''audio/ogg'', ''audio/x-m4a''}
   \<and> uploadError (fst (onChange_file 5 False
       (Some \<lparr>file_name = ''a.txt'', file_size = 10485761, file_type = ''text/plain''\<rparr>) App0))
     = Some FileTooLarge
   \<and> uploadError (fst (onChange_file 5 False
       (Some \<lparr>file_name = ''a.txt'', file_size = 10485761, file_type = ''text/plain''\<rparr>) App0))
     \<noteq> Some UnsupportedFormat"
  by (simp add: onChange_file_def MAX_FILE_SIZE_def)

subsection \<open>The admitted track\<close>

lemma split_on_nonempty: "split_on c s \<noteq> []"
  by (induction s) (auto split: list.splits)

lemma split_on_head: "split_on c s = takeWhile (\<lambda>x. x \<noteq> c) s # tl (split_on c s)"
proof (induction s)
  case Nil
  then show ?case by simp
next
  case (Cons x xs)
  show ?case
  proof (cases "x = c")
    case True
    then show ?thesis by simp
  next
    case False
    obtain w ws where w: "split_on c xs = w # ws"
      using split_on_nonempty [of c xs] by (cases "split_on c xs") auto
    with Cons.IH have "w = takeWhile (\<lambda>x. x \<noteq> c) xs" by simp
    with False w show ?thesis by simp
  qed
qed

lemma title_of_takeWhile: "title_of nm = takeWhile (\<lambda>x. x \<noteq> CHR ''.'') nm"
proof -
  have "split_on CHR ''.'' nm = takeWhile (\<lambda>x. x \<noteq> CHR ''.'') nm # tl (split_on CHR ''.'' nm)"
    by (rule split_on_head)
  then show ?thesis by (cases "split_on CHR ''.'' nm") (simp_all add: title_of_def)
qed

lemma reader_onload_admits:
  assumes "has_result"
  shows "tracks (reader_onload sf has_result url stamp p s) = tracks_seen p @ [newTrack url stamp p]"
    and "storage (reader_onload sf has_result url stamp p s)
           = Some (sf (tracks_seen p @ [newTrack url stamp p]))"
    and "selectedTrack (reader_onload sf has_result url stamp p s) = Some (newTrack url stamp p)"
    and "isBGMPlaying (reader_onload sf has_result url stamp p s) = isBGMPlaying s"
    and "trace (reader_onload sf has_result url stamp p s) = trace s"
  using assms by (simp_all add: reader_onload_def Let_def)

lemma newTrack_fields:
  "track_id (newTrack url stamp p) = toString (timestamp p)"
  "title (newTrack url stamp p) = takeWhile (\<lambda>x. x \<noteq> CHR ''.'') (file_name (picked p))"
  "composer (newTrack url stamp p) = composer_placeholder"
  "filename (newTrack url stamp p) = url"
  by (simp_all add: newTrack_def title_of_takeWhile)

lemma strip_extension_one_dot:
  assumes "CHR ''.'' \<notin> set a" "CHR ''.'' \<notin> set b"
  shows "strip_extension (a @ CHR ''.'' # b) = a" "title_of (a @ CHR ''.'' # b) = a"
proof -
  have "dropWhile (\<lambda>c. c \<noteq> CHR ''.'') (rev b @ CHR ''.'' # rev a) = CHR ''.'' # rev a"
    using assms(2) by (subst dropWhile_append2) auto
  then show "strip_extension (a @ CHR ''.'' # b) = a"
    by (simp add: strip_extension_def)
  show "title_of (a @ CHR ''.'' # b) = a"
    using assms(1) unfolding title_of_takeWhile by (subst takeWhile_append2) auto
qed

text \<open>
  Claim C4 at the file name \<open>my.song.mp3\<close>. The file is admitted and its track is
  selected; the title of that track is \<open>my\<close>, the name up to its first dot, while the
  name with its extension \<open>mp3\<close> stripped is \<open>my.song\<close>.
\<close>

theorem title_first_segment_only:
  "snd (onChange_file 1700000000000 False
      (Some \<lparr>file_name = ''my.song.mp3'', file_size = 1000, file_type = ''audio/mpeg''\<rparr>) App0)
     = Some \<lparr>timestamp = 1700000000000,
             picked = \<lparr>file_name = ''my.song.mp3'', file_size = 1000, file_type = ''audio/mpeg''\<rparr>,
             tracks_seen = []\<rparr>
   \<and> map_option title (selectedTrack (reader_onload (\<lambda>ts. ''[]'') True ''blob:1'' ''2023'' 
        \<lparr>timestamp = 1700000000000,
         picked = \<lparr>file_name = ''my.song.mp3'', file_size = 1000, file_type = ''audio/mpeg''\<rparr>,
         tracks_seen = []\<rparr> App0)) = Some ''my''
   \<and> ext_of ''my.song.mp3'' = ''mp3''
   \<and> strip_extension ''my.song.mp3'' = ''my.song''"
  by (simp add: onChange_file_def MAX_FILE_SIZE_def ACCEPTED_FORMATS_def App0_def initial_App_def
      init_tracks_def reader_onload_def newTrack_def title_of_def ext_of_def strip_extension_def
      Let_def)

section \<open>Initial track library\<close>

lemma filename_of_json_of_track: "filename_of (json_of_track t) = Some (filename t)"
  by (simp add: json_of_track_def)

lemma is_track_json_of_track: "is_track (json_of_track t)"
  by (simp add: json_of_track_def has_member_def)

lemma is_track_has_filename: "is_track t \<Longrightarrow> \<exists>f. filename_of t = Some f"
proof (cases t)
  case (JObject kvs)
  assume "is_track t"
  with JObject have "has_member is_string ''filename'' kvs" by simp
  then obtain v where v: "map_of kvs ''filename'' = Some v" "is_string v"
    by (auto simp add: has_member_def split: option.splits)
  then obtain f where "v = JString f" by (cases v) simp_all
  with v JObject show ?thesis by simp
qed simp_all

lemma forEach_revoke_named:
  "\<forall>t \<in> set ts. \<exists>f. filename_of t = Some f \<Longrightarrow>
     forEach_revoke ts =
       (map RevokeObjectURL (filter (\<lambda>f. startsWith f ''blob:'') (filenames ts)), False)"
proof (induction ts)
  case Nil
  then show ?case by (simp add: filenames_def)
next
  case (Cons t ts)
  then obtain f where f: "filename_of t = Some f" by auto
  from Cons have "forEach_revoke ts =
       (map RevokeObjectURL (filter (\<lambda>f. startsWith f ''blob:'') (filenames ts)), False)"
    by simp
  with f show ?case by (simp add: filenames_def Let_def)
qed

lemma forEach_revoke_throws: "snd (forEach_revoke ts) \<longleftrightarrow> (\<exists>t \<in> set ts. filename_of t = None)"
  by (induction ts) (auto simp add: Let_def split: option.splits)

lemma forEach_revoke_no_error: "ConsoleError msg \<notin> set (fst (forEach_revoke ts))"
  by (induction ts) (auto simp add: Let_def split: option.splits)

lemma init_tracks_fst: "fst (init_tracks parse saved) = []"
  by (simp add: init_tracks_def Let_def split: option.splits json.splits)

lemma init_tracks_logs:
  "ConsoleError ''Error loading tracks:'' \<in> set (snd (init_tracks parse saved)) \<longleftrightarrow>
     (\<exists>str. saved = Some str \<and> str \<noteq> []
        \<and> (parse str = None
           \<or> (\<exists>j. parse str = Some j
                \<and> (\<forall>ts. j = JArray ts \<longrightarrow> (\<exists>t \<in> set ts. filename_of t = None)))))"
proof (cases saved)
  case None
  then show ?thesis by (simp add: init_tracks_def)
next
  case (Some str)
  show ?thesis
  proof (cases "str = []")
    case True
    with Some show ?thesis by (simp add: init_tracks_def)
  next
    case ne: False
    show ?thesis
    proof (cases "parse str")
      case None
      with Some ne show ?thesis by (simp add: init_tracks_def)
    next
      case (Some j)
      with \<open>saved = Some str\<close> ne show ?thesis
        by (cases j)
          (simp_all add: init_tracks_def Let_def forEach_revoke_no_error forEach_revoke_throws)
    qed
  qed
qed

lemma init_tracks_track_sequence:
  assumes "str \<noteq> []" "parse str = Some (JArray ts)" "list_all is_track ts"
  shows "snd (init_tracks parse (Some str)) =
       map RevokeObjectURL (filter (\<lambda>f. startsWith f ''blob:'') (filenames ts))"
proof -
  from assms(3) have "\<forall>t \<in> set ts. \<exists>f. filename_of t = Some f"
    by (simp add: list_all_iff is_track_has_filename)
  then have "forEach_revoke ts =
       (map RevokeObjectURL (filter (\<lambda>f. startsWith f ''blob:'') (filenames ts)), False)"
    by (rule forEach_revoke_named)
  with assms(1,2) show ?thesis by (simp add: init_tracks_def Let_def)
qed

text \<open>
  Claim C5, as the code has it. Whatever the persisted entry holds and whatever the
  parser makes of it, the initializer returns, and the track list it returns is empty.
  The error is logged exactly when the entry is not empty and either does not parse or
  parses to something that is not an array whose elements are all objects with a string
  member \<open>filename\<close>. When the entry parses to a sequence of Track metadata objects,
  every file name in it that is an object URL is revoked, in order, and nothing else
  happens.
\<close>

theorem init_tracks_empty:
  "fst (init_tracks parse saved) = []
   \<and> tracks (initial_App parse now saved) = []
   \<and> (ConsoleError ''Error loading tracks:'' \<in> set (snd (init_tracks parse saved)) \<longleftrightarrow>
        (\<exists>str. saved = Some str \<and> str \<noteq> []
           \<and> (parse str = None
              \<or> (\<exists>j. parse str = Some j
                   \<and> (\<forall>ts. j = JArray ts \<longrightarrow> (\<exists>t \<in> set ts. filename_of t = None))))))
   \<and> (saved = Some str \<and> str \<noteq> [] \<and> parse str = Some j \<and> track_sequence j \<longrightarrow>
        (\<exists>ts. j = JArray ts
           \<and> snd (init_tracks parse saved) =
               map RevokeObjectURL (filter (\<lambda>f. startsWith f ''blob:'') (filenames ts))))"
proof (intro conjI impI)
  show "fst (init_tracks parse saved) = []" by (rule init_tracks_fst)
  show "tracks (initial_App parse now saved) = []"
    by (simp add: initial_App_def init_tracks_fst)
  show "ConsoleError ''Error loading tracks:'' \<in> set (snd (init_tracks parse saved)) \<longleftrightarrow>
        (\<exists>str. saved = Some str \<and> str \<noteq> []
           \<and> (parse str = None
              \<or> (\<exists>j. parse str = Some j
                   \<and> (\<forall>ts. j = JArray ts \<longrightarrow> (\<exists>t \<in> set ts. filename_of t = None)))))"
    by (rule init_tracks_logs)
next
  assume a: "saved = Some str \<and> str \<noteq> [] \<and> parse str = Some j \<and> track_sequence j"
  then obtain ts where ts: "j = JArray ts" "list_all is_track ts"
    by (cases j) simp_all
  with a have "snd (init_tracks parse (Some str)) =
       map RevokeObjectURL (filter (\<lambda>f. startsWith f ''blob:'') (filenames ts))"
    by (intro init_tracks_track_sequence) simp_all
  with a ts show "\<exists>ts. j = JArray ts
           \<and> snd (init_tracks parse saved) =
               map RevokeObjectURL (filter (\<lambda>f. startsWith f ''blob:'') (filenames ts))"
    by simp
qed

lemma parse_AB_values:
  "parse_AB ''AB'' = Some (JArray (map json_of_track [trackA, trackB]))"
  "parse_AB ''null'' = Some JNull"
  "parse_AB ''F'' = Some (JArray [JObject [(''filename'', JString ''x'')]])"
  "parse_AB ''NB'' = Some (JArray [JNull, json_of_track trackB])"
  "parse_AB ''{'' = None"
  "parse_AB [] = None"
  by (simp_all add: parse_AB_def)

theorem init_tracks_empty_witness:
  "ConsoleError ''Error loading tracks:'' \<in> set (snd (init_tracks parse_AB (Some ''{'')))
   \<and> ConsoleError ''Error loading tracks:'' \<in> set (snd (init_tracks parse_AB (Some ''null'')))
   \<and> snd (init_tracks parse_AB (Some ''AB'')) = [RevokeObjectURL ''blob:a'', RevokeObjectURL ''blob:b'']
   \<and> tracks (initial_App parse_AB 0 (Some ''AB'')) = []"
proof -
  have seq: "track_sequence (JArray (map json_of_track [trackA, trackB]))"
    by (simp add: is_track_json_of_track)
  have names: "filenames (map json_of_track [trackA, trackB]) = [''blob:a'', ''blob:b'']"
    by (simp add: filenames_def filename_of_json_of_track trackA_def trackB_def)
  have 1: "ConsoleError ''Error loading tracks:'' \<in> set (snd (init_tracks parse_AB (Some ''{'')))"
    using init_tracks_empty [of parse_AB "Some ''{''" 0 "''{''" JNull]
    by (simp add: parse_AB_values)
  have 2: "ConsoleError ''Error loading tracks:'' \<in> set (snd (init_tracks parse_AB (Some ''null'')))"
    using init_tracks_empty [of parse_AB "Some ''null''" 0 "''null''" JNull]
    by (simp add: parse_AB_values)
  have 3: "snd (init_tracks parse_AB (Some ''AB'')) = [RevokeObjectURL ''blob:a'', RevokeObjectURL ''blob:b'']"
    using init_tracks_empty [of parse_AB "Some ''AB''" 0 "''AB''"
        "JArray (map json_of_track [trackA, trackB])"] seq names
    by (simp add: parse_AB_values startsWith_def)
  have 4: "tracks (initial_App parse_AB 0 (Some ''AB'')) = []"
    using init_tracks_empty [of parse_AB "Some ''AB''" 0 "''AB''" JNull] by simp
  show ?thesis by (intro conjI) (rule 1 2 3 4)+
qed

text \<open>
  Three persisted entries on which the claim fails. The empty string does not parse, and
  nothing is logged. An array of one object with a file name and no other Track member is
  not a sequence of Track metadata objects, and nothing is logged. In an array of
  \<open>null\<close> and a track, the error is logged at \<open>null\<close> and the object URL of the track
  behind it is not revoked.
\<close>

theorem init_tracks_silent_counterexample:
  "parse_AB [] = None
   \<and> snd (init_tracks parse_AB (Some [])) = []
   \<and> parse_AB ''F'' = Some (JArray [JObject [(''filename'', JString ''x'')]])
   \<and> \<not> track_sequence (JArray [JObject [(''filename'', JString ''x'')]])
   \<and> snd (init_tracks parse_AB (Some ''F'')) = []
   \<and> parse_AB ''NB'' = Some (JArray [JNull, json_of_track trackB])
   \<and> filename_of (json_of_track trackB) = Some ''blob:b''
   \<and> snd (init_tracks parse_AB (Some ''NB'')) = [ConsoleError ''Error loading tracks:'']"
  by (simp add: parse_AB_values init_tracks_def has_member_def startsWith_def
      filename_of_json_of_track trackB_def)

section \<open>Deleting a track\<close>

lemma filter_only_entry:
  "filter P xs = [x] \<Longrightarrow> filter (\<lambda>t. \<not> P t) xs = remove1 x xs"
proof (induction xs)
  case Nil
  then show ?case by simp
next
  case (Cons a xs)
  show ?case
  proof (cases "P a")
    case True
    with Cons.prems have ax: "a = x" and none: "filter P xs = []" by simp_all
    from none have "filter (\<lambda>t. \<not> P t) xs = xs" by (simp add: filter_empty_conv filter_id_conv)
    with True ax show ?thesis by simp
  next
    case False
    with Cons.prems have one: "filter P xs = [x]" by simp
    then have "x \<in> set (filter P xs)" by simp
    then have "P x" by simp
    with False have "a \<noteq> x" by auto
    with False Cons.IH [OF one] show ?thesis by simp
  qed
qed

lemma length_filter_other_ids:
  "length (filter (\<lambda>t. f t \<noteq> v) xs) + length (filter (\<lambda>t. f t = v) xs) = length xs"
  by (induction xs) simp_all

lemma only_entry_removed:
  assumes "filter (\<lambda>t. f t = f x) xs = [x]"
  shows "filter (\<lambda>t. f t \<noteq> f x) xs = remove1 x xs"
    and "length (filter (\<lambda>t. f t \<noteq> f x) xs) + 1 = length xs"
proof -
  show "filter (\<lambda>t. f t \<noteq> f x) xs = remove1 x xs"
    using filter_only_entry [of "\<lambda>t. f t = f x" xs x] assms by simp
  show "length (filter (\<lambda>t. f t \<noteq> f x) xs) + 1 = length xs"
    using length_filter_other_ids [of f "f x" xs] assms by simp
qed

lemma onClick_delete_tracks:
  "tracks (onClick_delete sf track s) = filter (\<lambda>t. track_id t \<noteq> track_id track) (tracks s)"
  "storage (onClick_delete sf track s)
     = Some (sf (filter (\<lambda>t. track_id t \<noteq> track_id track) (tracks s)))"
  by (simp_all add: onClick_delete_def Let_def)

lemma onClick_delete_selected:
  assumes "is_selected track s"
  shows "selectedTrack (onClick_delete sf track s) = None"
    and "isBGMPlaying (onClick_delete sf track s) = False"
    and "trace (onClick_delete sf track s) =
           trace s @ (if bgmRef s then [BgmPause] else [])
             @ (if startsWith (filename track) ''blob:'' then [RevokeObjectURL (filename track)]
                else [])"
  using assms by (simp_all add: onClick_delete_def Let_def)

lemma onClick_delete_unselected:
  assumes "\<not> is_selected track s"
  shows "selectedTrack (onClick_delete sf track s) = selectedTrack s"
    and "isBGMPlaying (onClick_delete sf track s) = isBGMPlaying s"
    and "isBGMLoaded (onClick_delete sf track s) = isBGMLoaded s"
    and "trace (onClick_delete sf track s) =
           trace s @ (if startsWith (filename track) ''blob:'' then [RevokeObjectURL (filename track)]
                      else [])"
  using assms by (simp_all add: onClick_delete_def Let_def)

text \<open>
  Claim C6, as the code has it. Deleting the selected track while it plays, where the
  track's source is an object URL and the BGM element is mounted: the playing flag is
  off, nothing is selected, the BGM element is paused and then the object URL of the
  track revoked. The list and the persisted list lose every entry that bears the id of
  the track, so the track is gone from both and the list is shorter by the number of
  entries with that id. When the track is the only entry with its id, it alone is
  removed and the list is shorter by exactly one.
\<close>

theorem delete_selected_playing:
  "is_selected track s \<and> isBGMPlaying s \<and> bgmRef s \<and> startsWith (filename track) ''blob:'' \<longrightarrow>
   \<not> isBGMPlaying (onClick_delete sf track s)
   \<and> selectedTrack (onClick_delete sf track s) = None
   \<and> trace (onClick_delete sf track s) = trace s @ [BgmPause, RevokeObjectURL (filename track)]
   \<and> tracks (onClick_delete sf track s)
       = filter (\<lambda>t. track_id t \<noteq> track_id track) (tracks s)
   \<and> track \<notin> set (tracks (onClick_delete sf track s))
   \<and> storage (onClick_delete sf track s) = Some (sf (tracks (onClick_delete sf track s)))
   \<and> length (tracks (onClick_delete sf track s))
       + length (filter (\<lambda>t. track_id t = track_id track) (tracks s)) = length (tracks s)
   \<and> (filter (\<lambda>t. track_id t = track_id track) (tracks s) = [track] \<longrightarrow>
        tracks (onClick_delete sf track s) = remove1 track (tracks s)
        \<and> length (tracks (onClick_delete sf track s)) + 1 = length (tracks s))"
proof
  assume a: "is_selected track s \<and> isBGMPlaying s \<and> bgmRef s
      \<and> startsWith (filename track) ''blob:''"
  have n: "track \<notin> set (filter (\<lambda>t. track_id t \<noteq> track_id track) (tracks s))" by simp
  have l: "length (filter (\<lambda>t. track_id t \<noteq> track_id track) (tracks s))
       + length (filter (\<lambda>t. track_id t = track_id track) (tracks s)) = length (tracks s)"
    by (rule length_filter_other_ids)
  have o: "filter (\<lambda>t. track_id t = track_id track) (tracks s) = [track] \<longrightarrow>
        filter (\<lambda>t. track_id t \<noteq> track_id track) (tracks s) = remove1 track (tracks s)
        \<and> length (filter (\<lambda>t. track_id t \<noteq> track_id track) (tracks s)) + 1 = length (tracks s)"
    using only_entry_removed [of track_id track "tracks s"] by blast
  show "\<not> isBGMPlaying (onClick_delete sf track s)
   \<and> selectedTrack (onClick_delete sf track s) = None
   \<and> trace (onClick_delete sf track s) = trace s @ [BgmPause, RevokeObjectURL (filename track)]
   \<and> tracks (onClick_delete sf track s)
       = filter (\<lambda>t. track_id t \<noteq> track_id track) (tracks s)
   \<and> track \<notin> set (tracks (onClick_delete sf track s))
   \<and> storage (onClick_delete sf track s) = Some (sf (tracks (onClick_delete sf track s)))
   \<and> length (tracks (onClick_delete sf track s))
       + length (filter (\<lambda>t. track_id t = track_id track) (tracks s)) = length (tracks s)
   \<and> (filter (\<lambda>t. track_id t = track_id track) (tracks s) = [track] \<longrightarrow>
        tracks (onClick_delete sf track s) = remove1 track (tracks s)
        \<and> length (tracks (onClick_delete sf track s)) + 1 = length (tracks s))"
    unfolding onClick_delete_tracks using a n l o
    by (auto simp add: onClick_delete_selected)
qed

lemma App_AB_facts:
  "tracks App_AB = [trackA, trackB]" "selectedTrack App_AB = Some trackA"
  "isBGMPlaying App_AB" "isBGMLoaded App_AB" "bgmRef App_AB" "trace App_AB = []"
  "storage App_AB = None"
  by (simp_all add: App_AB_def App0_def initial_App_def init_tracks_def)

lemma track_AB_facts:
  "track_id trackA = ''1700000000001''" "track_id trackB = ''1700000000002''"
  "filename trackA = ''blob:a''" "filename trackB = ''blob:b''" "trackA \<noteq> trackB"
  by (simp_all add: trackA_def trackB_def)

theorem delete_selected_playing_witness:
  "\<not> isBGMPlaying (onClick_delete ids_of trackA App_AB)
   \<and> selectedTrack (onClick_delete ids_of trackA App_AB) = None
   \<and> trace (onClick_delete ids_of trackA App_AB) = [BgmPause, RevokeObjectURL ''blob:a'']
   \<and> tracks (onClick_delete ids_of trackA App_AB) = [trackB]
   \<and> storage (onClick_delete ids_of trackA App_AB) = Some ''1700000000002;''
   \<and> length (tracks (onClick_delete ids_of trackA App_AB)) + 1 = length (tracks App_AB)"
  using delete_selected_playing [of trackA App_AB ids_of]
  by (simp add: App_AB_facts track_AB_facts is_selected_def startsWith_def ids_of_def)

text \<open>
  Two uploads made at the same timestamp give two tracks with one id, the second one
  selected. With the second selected, loaded and playing, deleting it removes the first
  as well: the list goes from two entries to none, and the object URL of the first is
  not revoked.
\<close>

lemma digit_chars: "map digit_char [0, 1, 2, 3, 4, 5, 6, 7, 8, 9] = ''0123456789''"
  by code_simp

lemma toString_1700000000001: "toString 1700000000001 = ''1700000000001''"
  using digit_chars by (simp add: toString_def string_of_nat.simps)

lemma title_of_values: "title_of ''rain.mp3'' = ''rain''" "title_of ''wind.ogg'' = ''wind''"
  by (simp_all add: title_of_def)

lemma twins_after_two_uploads:
  "tracks (upload ids_of 1700000000001 ''blob:b'' ''2023-11-15''
       \<lparr>file_name = ''wind.ogg'', file_size = 2000, file_type = ''audio/ogg''\<rparr>
     (upload ids_of 1700000000001 ''blob:a'' ''2023-11-14''
       \<lparr>file_name = ''rain.mp3'', file_size = 1000, file_type = ''audio/mpeg''\<rparr> App0))
     = [trackA, trackA2]"
  "selectedTrack (upload ids_of 1700000000001 ''blob:b'' ''2023-11-15''
       \<lparr>file_name = ''wind.ogg'', file_size = 2000, file_type = ''audio/ogg''\<rparr>
     (upload ids_of 1700000000001 ''blob:a'' ''2023-11-14''
       \<lparr>file_name = ''rain.mp3'', file_size = 1000, file_type = ''audio/mpeg''\<rparr> App0))
     = Some trackA2"
  by (simp_all add: upload_def onChange_file_def MAX_FILE_SIZE_def ACCEPTED_FORMATS_def
      reader_onload_def newTrack_def Let_def toString_1700000000001 title_of_values
      App0_def initial_App_def init_tracks_def trackA_def trackA2_def trackB_def)

lemma twins_facts:
  "track_id trackA2 = ''1700000000001''" "filename trackA2 = ''blob:b''"
  "track_id trackC = ''1700000000003''" "filename trackC = ''blob:c''"
  "trackA \<noteq> trackA2" "trackA \<noteq> trackC" "trackA2 \<noteq> trackC"
  by (simp_all add: trackA_def trackA2_def trackB_def trackC_def)

theorem delete_twin_selected_counterexample:
  "is_selected trackA2 App_twins_playing
   \<and> isBGMPlaying App_twins_playing
   \<and> tracks App_twins_playing = [trackA, trackA2]
   \<and> tracks (onClick_delete ids_of trackA2 App_twins_playing) = []
   \<and> length (tracks (onClick_delete ids_of trackA2 App_twins_playing)) + 1
       \<noteq> length (tracks App_twins_playing)
   \<and> trace (onClick_delete ids_of trackA2 App_twins_playing)
       = [BgmPause, RevokeObjectURL ''blob:b'']"
  by (simp add: App_twins_playing_def App0_def initial_App_def init_tracks_def
      onClick_delete_def is_selected_def Let_def startsWith_def track_AB_facts twins_facts)

text \<open>
  Claim C10, as the code has it. Deleting a track whose id is not the id of the selected
  track (also when nothing is selected) leaves the selected track, the playing flag and
  the loaded flag as they were, and the effect keyed on the selection does not run. The
  list and the persisted list lose every entry that bears the id of the track and keep
  every other entry; when the track is the only entry with its id, it alone is removed.
\<close>

theorem delete_unselected_frame:
  "\<not> is_selected track s \<longrightarrow>
   selectedTrack (onClick_delete sf track s) = selectedTrack s
   \<and> isBGMPlaying (onClick_delete sf track s) = isBGMPlaying s
   \<and> isBGMLoaded (onClick_delete sf track s) = isBGMLoaded s
   \<and> useEffect_selectedTrack r (selectedTrack s) (onClick_delete sf track s)
       = onClick_delete sf track s
   \<and> tracks (onClick_delete sf track s)
       = filter (\<lambda>t. track_id t \<noteq> track_id track) (tracks s)
   \<and> storage (onClick_delete sf track s) = Some (sf (tracks (onClick_delete sf track s)))
   \<and> (filter (\<lambda>t. track_id t = track_id track) (tracks s) = [track] \<longrightarrow>
        tracks (onClick_delete sf track s) = remove1 track (tracks s))"
proof
  assume a: "\<not> is_selected track s"
  have o: "filter (\<lambda>t. track_id t = track_id track) (tracks s) = [track] \<longrightarrow>
      filter (\<lambda>t. track_id t \<noteq> track_id track) (tracks s) = remove1 track (tracks s)"
    using only_entry_removed [of track_id track "tracks s"] by blast
  show "selectedTrack (onClick_delete sf track s) = selectedTrack s
   \<and> isBGMPlaying (onClick_delete sf track s) = isBGMPlaying s
   \<and> isBGMLoaded (onClick_delete sf track s) = isBGMLoaded s
   \<and> useEffect_selectedTrack r (selectedTrack s) (onClick_delete sf track s)
       = onClick_delete sf track s
   \<and> tracks (onClick_delete sf track s)
       = filter (\<lambda>t. track_id t \<noteq> track_id track) (tracks s)
   \<and> storage (onClick_delete sf track s) = Some (sf (tracks (onClick_delete sf track s)))
   \<and> (filter (\<lambda>t. track_id t = track_id track) (tracks s) = [track] \<longrightarrow>
        tracks (onClick_delete sf track s) = remove1 track (tracks s))"
    using a o
    by (simp add: onClick_delete_tracks onClick_delete_unselected useEffect_selectedTrack_def)
qed

theorem delete_unselected_frame_witness:
  "selectedTrack (onClick_delete ids_of trackB App_AB) = Some trackA
   \<and> isBGMPlaying (onClick_delete ids_of trackB App_AB)
   \<and> isBGMLoaded (onClick_delete ids_of trackB App_AB)
   \<and> tracks (onClick_delete ids_of trackB App_AB) = [trackA]
   \<and> storage (onClick_delete ids_of trackB App_AB) = Some ''1700000000001;''
   \<and> tracks (onClick_delete ids_of trackA (App_AB\<lparr>selectedTrack := None\<rparr>)) = [trackB]
   \<and> selectedTrack (onClick_delete ids_of trackA (App_AB\<lparr>selectedTrack := None\<rparr>)) = None"
  using delete_unselected_frame [of trackB App_AB ids_of SetupOk]
    delete_unselected_frame [of trackA "App_AB\<lparr>selectedTrack := None\<rparr>" ids_of SetupOk]
  by (simp add: App_AB_facts track_AB_facts is_selected_def ids_of_def)

text \<open>
  With the two tracks of one id and a third track selected, deleting the first of the
  two, which is not the selected track, removes the second as well. With the second of
  the two selected, deleting the first clears the selection.
\<close>

theorem delete_twin_unselected_counterexample:
  "selectedTrack App_twins_other = Some trackC
   \<and> trackA \<noteq> trackC
   \<and> tracks App_twins_other = [trackA, trackA2, trackC]
   \<and> tracks (onClick_delete ids_of trackA App_twins_other) = [trackC]
   \<and> tracks (onClick_delete ids_of trackA App_twins_other) \<noteq> [trackA2, trackC]
   \<and> selectedTrack (App_twins_other\<lparr>selectedTrack := Some trackA2\<rparr>) = Some trackA2
   \<and> trackA \<noteq> trackA2
   \<and> selectedTrack (onClick_delete ids_of trackA (App_twins_other\<lparr>selectedTrack := Some trackA2\<rparr>))
       = None"
  by (simp add: App_twins_other_def App0_def initial_App_def init_tracks_def
      onClick_delete_def is_selected_def Let_def startsWith_def track_AB_facts twins_facts)

section \<open>Changing the selected track\<close>

lemma onClick_select_fields:
  "selectedTrack (onClick_select track s) = Some track"
  "isBGMPlaying (onClick_select track s) = False"
  "isBGMLoaded (onClick_select track s) = isBGMLoaded s"
  "bgmRef (onClick_select track s) = bgmRef s"
  by (simp_all add: onClick_select_def Let_def)

lemma loadAudio_not_loaded:
  assumes "bgmRef s" "\<not> isBGMLoaded s"
  shows "trace (loadAudio SetupOk s) =
           trace s @ [ConsoleLog ''Setting up BGM audio...'', BgmSetHandlers,
                      BgmSetVolume (volume s), BgmLoad, ConsoleLog ''BGM load called'']"
    and "\<not> isBGMLoaded (loadAudio SetupOk s)"
    and "isBGMLoaded (oncanplaythrough (loadAudio SetupOk s))"
  using assms by (simp_all add: loadAudio_def oncanplaythrough_def Let_def)

lemma loadAudio_loaded:
  assumes "bgmRef s" "isBGMLoaded s"
  shows "trace (loadAudio SetupOk s) =
           trace s @ [ConsoleLog ''Setting up BGM audio...'', BgmSetHandlers,
                      BgmSetVolume (volume s)]"
    and "isBGMLoaded (loadAudio SetupOk s)"
  using assms by (simp_all add: loadAudio_def Let_def)

lemma select_when_loaded:
  assumes "bgmRef s" "isBGMLoaded s" "selectedTrack s \<noteq> Some track"
  shows "isBGMLoaded (useEffect_selectedTrack SetupOk (selectedTrack s) (onClick_select track s))"
    and "count_list (trace (useEffect_selectedTrack SetupOk (selectedTrack s)
            (onClick_select track s))) BgmLoad = count_list (trace s) BgmLoad"
  using assms
  by (simp_all add: useEffect_selectedTrack_def onClick_select_def loadAudio_def Let_def)

text \<open>
  Claim C7 at a state where the first track is selected, loaded and playing, and the
  second track is then selected. The selection changes and the effect runs, but the
  loaded flag is still set afterwards, and the calls made on the BGM element are a pause,
  the handler assignment and the volume assignment: no \<open>load()\<close>.
\<close>

theorem select_other_track_keeps_loaded:
  "selectedTrack (useEffect_selectedTrack SetupOk (selectedTrack App_AB)
       (onClick_select trackB App_AB)) = Some trackB
   \<and> isBGMLoaded (useEffect_selectedTrack SetupOk (selectedTrack App_AB)
       (onClick_select trackB App_AB))
   \<and> trace (useEffect_selectedTrack SetupOk (selectedTrack App_AB)
       (onClick_select trackB App_AB))
     = [BgmPause, ConsoleLog ''Setting up BGM audio...'', BgmSetHandlers, BgmSetVolume (1 / 2)]"
  by (simp add: useEffect_selectedTrack_def onClick_select_def loadAudio_def Let_def App_AB_def
      App0_def initial_App_def init_tracks_def trackA_def trackB_def)

section \<open>Toggling the BGM\<close>




section \<open>Editing the duration\<close>

lemma js_rem_nonneg: "0 \<le> a \<Longrightarrow> js_rem a 100 = a mod 100"
  by (simp add: js_rem_def)

lemma rolling_entry_bounds: "0 \<le> v \<Longrightarrow> 0 \<le> js_rem (v * 10 + int d) 100"
  by (simp add: js_rem_nonneg)

lemma hours_onChange_ok:
  "DurationInput_ok (durationInput s) \<Longrightarrow> DurationInput_ok (durationInput (hours_onChange p s))"
  by (simp add: hours_onChange_def DurationInput_ok_def)

lemma minutes_onChange_ok:
  "DurationInput_ok (durationInput s) \<Longrightarrow> DurationInput_ok (durationInput (minutes_onChange p s))"
  by (simp add: minutes_onChange_def DurationInput_ok_def)

lemma seconds_onChange_ok:
  "DurationInput_ok (durationInput s) \<Longrightarrow> DurationInput_ok (durationInput (seconds_onChange p s))"
  by (simp add: seconds_onChange_def DurationInput_ok_def)

lemma hours_onKeyDown_ok:
  assumes "DurationInput_ok (durationInput s)" "DurationInput_ok shown"
  shows "DurationInput_ok (durationInput (hours_onKeyDown shown key s))"
proof (cases key)
  case (Digit d)
  have "0 \<le> js_rem (hours shown * 10 + int d) 100"
    using assms(2) by (intro rolling_entry_bounds) (simp add: DurationInput_ok_def)
  with Digit assms(1) show ?thesis
    by (simp add: hours_onKeyDown_def DurationInput_ok_def Let_def)
qed (use assms(1) in \<open>simp_all add: hours_onKeyDown_def DurationInput_ok_def\<close>)

lemma minutes_onKeyDown_ok:
  assumes "DurationInput_ok (durationInput s)" "DurationInput_ok shown"
  shows "DurationInput_ok (durationInput (minutes_onKeyDown shown key s))"
proof (cases key)
  case (Digit d)
  have "0 \<le> js_rem (minutes shown * 10 + int d) 100"
    using assms(2) by (intro rolling_entry_bounds) (simp add: DurationInput_ok_def)
  with Digit assms(1) show ?thesis
    by (simp add: minutes_onKeyDown_def DurationInput_ok_def Let_def)
qed (use assms(1) in \<open>simp_all add: minutes_onKeyDown_def DurationInput_ok_def\<close>)

lemma seconds_onKeyDown_ok:
  assumes "DurationInput_ok (durationInput s)" "DurationInput_ok shown"
  shows "DurationInput_ok (durationInput (seconds_onKeyDown shown key s))"
proof (cases key)
  case (Digit d)
  have "0 \<le> js_rem (seconds shown * 10 + int d) 100"
    using assms(2) by (intro rolling_entry_bounds) (simp add: DurationInput_ok_def)
  with Digit assms(1) show ?thesis
    by (simp add: seconds_onKeyDown_def DurationInput_ok_def Let_def)
qed (use assms(1) in \<open>simp_all add: seconds_onKeyDown_def DurationInput_ok_def\<close>)

lemma rolling_entry_values:
  assumes "DurationInput_ok shown"
  shows "hours (durationInput (hours_onKeyDown shown (Digit d) s))
           = min 23 ((hours shown * 10 + int d) mod 100)"
    and "minutes (durationInput (minutes_onKeyDown shown (Digit d) s))
           = min 59 ((minutes shown * 10 + int d) mod 100)"
    and "seconds (durationInput (seconds_onKeyDown shown (Digit d) s))
           = min 59 ((seconds shown * 10 + int d) mod 100)"
  using assms
  by (simp_all add: hours_onKeyDown_def minutes_onKeyDown_def seconds_onKeyDown_def
      DurationInput_ok_def Let_def js_rem_nonneg)

lemma initial_DurationInput_ok: "DurationInput_ok (durationInput (initial_App parse now saved))"
  by (simp add: initial_App_def DurationInput_ok_def)

text \<open>
  Claim C9. When the duration input and the value the handlers were rendered with are in
  range (hours 0-23, minutes and seconds 0-59), the duration input is in range after any
  mutation: direct entry, arrow up, arrow down, digit key, in any of the three fields. A
  digit key sets its field to \<open>(shown * 10 + digit) mod 100\<close>, capped at the field's
  maximum.
\<close>

theorem duration_mutations_in_range:
  "DurationInput_ok (durationInput s) \<and> DurationInput_ok shown \<longrightarrow>
     DurationInput_ok (durationInput (mutate shown m s))
     \<and> hours (durationInput (mutate shown (HoursKey (Digit d)) s))
         = min 23 ((hours shown * 10 + int d) mod 100)
     \<and> minutes (durationInput (mutate shown (MinutesKey (Digit d)) s))
         = min 59 ((minutes shown * 10 + int d) mod 100)
     \<and> seconds (durationInput (mutate shown (SecondsKey (Digit d)) s))
         = min 59 ((seconds shown * 10 + int d) mod 100)"
proof
  assume a: "DurationInput_ok (durationInput s) \<and> DurationInput_ok shown"
  have "DurationInput_ok (durationInput (mutate shown m s))"
    using a
    by (cases m)
      (simp_all add: hours_onChange_ok minutes_onChange_ok seconds_onChange_ok
        hours_onKeyDown_ok minutes_onKeyDown_ok seconds_onKeyDown_ok)
  then show "DurationInput_ok (durationInput (mutate shown m s))
     \<and> hours (durationInput (mutate shown (HoursKey (Digit d)) s))
         = min 23 ((hours shown * 10 + int d) mod 100)
     \<and> minutes (durationInput (mutate shown (MinutesKey (Digit d)) s))
         = min 59 ((minutes shown * 10 + int d) mod 100)
     \<and> seconds (durationInput (mutate shown (SecondsKey (Digit d)) s))
         = min 59 ((seconds shown * 10 + int d) mod 100)"
    using a by (simp add: rolling_entry_values)
qed

theorem duration_mutations_in_range_witness:
  "DurationInput_ok (durationInput (mutate \<lparr>hours = 2, minutes = 0, seconds = 0\<rparr> (HoursKey (Digit 7))
      (App0\<lparr>durationInput := \<lparr>hours = 2, minutes = 0, seconds = 0\<rparr>\<rparr>)))
   \<and> hours (durationInput (mutate \<lparr>hours = 2, minutes = 0, seconds = 0\<rparr> (HoursKey (Digit 7))
      (App0\<lparr>durationInput := \<lparr>hours = 2, minutes = 0, seconds = 0\<rparr>\<rparr>))) = 23"
  using duration_mutations_in_range [of "App0\<lparr>durationInput := \<lparr>hours = 2, minutes = 0, seconds = 0\<rparr>\<rparr>"
      "\<lparr>hours = 2, minutes = 0, seconds = 0\<rparr>" "HoursKey (Digit 7)" 7]
  by (simp add: DurationInput_ok_def)

end
